theory Spec2Isabelle
  imports Complex_Main "HOL-Library.Word"
begin

unbundle bit_operations_syntax

section \<open>The Android backend of the immediate-mode GUI: data model\<close>

text \<open>
  The development embeds \<^verbatim>\<open>src/platform/android/imgui_impl_android.cpp\<close>.
  The file-scope globals and the function-local statics of the backend become the fields
  of one record; every entry point is a function from the platform's answers during the
  call (record \<open>env\<close>) and the state before the call to the state after it (and the
  return value, where there is one).

  Conventions. Handles (EGL display, surface, context, the native window pointer, GL object
  names) are natural numbers and the null handle is \<open>0\<close>. Single and double precision
  values are modelled by the real numbers they denote, so rounding is not part of the
  model; the conversion \<^verbatim>\<open>(int)f\<close> is truncation towards zero. \<^verbatim>\<open>int32_t\<close> window
  dimensions are integers (they are only compared); the motion action word, on which the
  code masks and shifts, is a 32-bit word.
\<close>

subsection \<open>Logging\<close>

datatype log_level = ANDROID_LOG_INFO | ANDROID_LOG_WARN | ANDROID_LOG_ERROR

datatype log_arg = LInt int | LReal real | LStr string | LPtr nat

text \<open>One line written by \<^verbatim>\<open>__android_log_print\<close>: priority, format string, arguments.\<close>

type_synonym log_entry = "log_level \<times> string \<times> log_arg list"

subsection \<open>The ambient GPU state and the calls that change it\<close>

datatype cap = GL_BLEND | GL_CULL_FACE | GL_DEPTH_TEST | GL_SCISSOR_TEST

datatype buffer_target = GL_ARRAY_BUFFER | GL_ELEMENT_ARRAY_BUFFER

datatype shader_kind = GL_VERTEX_SHADER | GL_FRAGMENT_SHADER

definition GL_TEXTURE0 :: nat where "GL_TEXTURE0 = 0x84C0"
definition GL_FUNC_ADD :: nat where "GL_FUNC_ADD = 0x8006"
definition GL_ONE :: nat where "GL_ONE = 1"
definition GL_SRC_ALPHA :: nat where "GL_SRC_ALPHA = 0x0302"
definition GL_ONE_MINUS_SRC_ALPHA :: nat where "GL_ONE_MINUS_SRC_ALPHA = 0x0303"

text \<open>
  The part of the GL context that \<^verbatim>\<open>ImGui_ImplAndroid_RenderDrawData\<close> reads into its
  \<^verbatim>\<open>last_*\<close> locals. The 2D texture binding is per texture unit, so it is a function
  of the unit.
\<close>

record gl_state =
  active_texture :: nat
  current_program :: nat
  texture_binding_2d :: "nat \<Rightarrow> nat"
  array_buffer_binding :: nat
  element_array_buffer_binding :: nat
  vertex_array_binding :: nat
  blend_src_rgb :: nat
  blend_dst_rgb :: nat
  blend_src_alpha :: nat
  blend_dst_alpha :: nat
  blend_equation_rgb :: nat
  blend_equation_alpha :: nat
  viewport :: "int \<times> int \<times> int \<times> int"
  scissor_box :: "int \<times> int \<times> int \<times> int"
  enable_blend :: bool
  enable_cull_face :: bool
  enable_depth_test :: bool
  enable_scissor_test :: bool

text \<open>Every EGL, GL and native-window call the backend issues, with the arguments that vary.\<close>

datatype api_call =
    ANativeWindow_acquire nat
  | ANativeWindow_release nat
  | EglGetDisplay
  | EglInitialize nat
  | EglChooseConfig nat
  | EglCreateWindowSurface nat nat
  | EglCreateContext nat
  | EglMakeCurrent nat nat nat nat
  | EglDestroyContext nat nat
  | EglDestroySurface nat nat
  | EglTerminate nat
  | EglSwapBuffers nat nat
  | GlCreateShader shader_kind
  | GlShaderSource nat
  | GlCompileShader nat
  | GlCreateProgram
  | GlAttachShader nat nat
  | GlLinkProgram nat
  | GlGenBuffers
  | GlGenTextures
  | GlTexParameteri
  | GlTexImage2D int int
  | GlDeleteBuffers nat
  | GlDetachShader nat nat
  | GlDeleteShader nat
  | GlDeleteProgram nat
  | GlDeleteTextures nat
  | GlActiveTexture nat
  | GlEnable cap
  | GlDisable cap
  | GlBlendEquation nat
  | GlBlendEquationSeparate nat nat
  | GlBlendFuncSeparate nat nat nat nat
  | GlViewport int int int int
  | GlScissor int int int int
  | GlClearColor
  | GlClear
  | GlUseProgram nat
  | GlUniform1i int int
  | GlUniformMatrix4fv int "real list"
  | GlBindBuffer buffer_target nat
  | GlBufferData buffer_target nat
  | GlEnableVertexAttribArray int
  | GlVertexAttribPointer int nat
  | GlBindTexture nat
  | GlDrawElements nat nat
  | InvokeUserCallback

definition set_cap :: "cap \<Rightarrow> bool \<Rightarrow> gl_state \<Rightarrow> gl_state" where
  "set_cap c b g =
     (case c of
        GL_BLEND \<Rightarrow> g\<lparr>enable_blend := b\<rparr>
      | GL_CULL_FACE \<Rightarrow> g\<lparr>enable_cull_face := b\<rparr>
      | GL_DEPTH_TEST \<Rightarrow> g\<lparr>enable_depth_test := b\<rparr>
      | GL_SCISSOR_TEST \<Rightarrow> g\<lparr>enable_scissor_test := b\<rparr>)"

text \<open>
  What a call does to the ambient state, after the OpenGL ES 3 specification:
  \<^verbatim>\<open>glBindTexture\<close> binds on the active unit, \<^verbatim>\<open>glBlendEquation\<close> sets both
  equations, deleting a bound buffer or texture resets the binding to zero. The other
  calls leave the fields of \<open>gl_state\<close> alone.
\<close>

fun gl_apply :: "api_call \<Rightarrow> gl_state \<Rightarrow> gl_state" where
  "gl_apply (GlActiveTexture u) g = g\<lparr>active_texture := u\<rparr>"
| "gl_apply (GlEnable c) g = set_cap c True g"
| "gl_apply (GlDisable c) g = set_cap c False g"
| "gl_apply (GlBlendEquation m) g = g\<lparr>blend_equation_rgb := m, blend_equation_alpha := m\<rparr>"
| "gl_apply (GlBlendEquationSeparate m a) g =
     g\<lparr>blend_equation_rgb := m, blend_equation_alpha := a\<rparr>"
| "gl_apply (GlBlendFuncSeparate sr dr sa da) g =
     g\<lparr>blend_src_rgb := sr, blend_dst_rgb := dr, blend_src_alpha := sa, blend_dst_alpha := da\<rparr>"
| "gl_apply (GlViewport x y w h) g = g\<lparr>viewport := (x, y, w, h)\<rparr>"
| "gl_apply (GlScissor x y w h) g = g\<lparr>scissor_box := (x, y, w, h)\<rparr>"
| "gl_apply (GlUseProgram p) g = g\<lparr>current_program := p\<rparr>"
| "gl_apply (GlBindTexture t) g =
     g\<lparr>texture_binding_2d := (texture_binding_2d g)(active_texture g := t)\<rparr>"
| "gl_apply (GlBindBuffer GL_ARRAY_BUFFER b) g = g\<lparr>array_buffer_binding := b\<rparr>"
| "gl_apply (GlBindBuffer GL_ELEMENT_ARRAY_BUFFER b) g = g\<lparr>element_array_buffer_binding := b\<rparr>"
| "gl_apply (GlDeleteBuffers b) g =
     g\<lparr>array_buffer_binding := (if array_buffer_binding g = b then 0 else array_buffer_binding g),
       element_array_buffer_binding :=
         (if element_array_buffer_binding g = b then 0 else element_array_buffer_binding g)\<rparr>"
| "gl_apply (GlDeleteTextures t) g =
     g\<lparr>texture_binding_2d := (\<lambda>u. if texture_binding_2d g u = t then 0 else texture_binding_2d g u)\<rparr>"
| "gl_apply _ g = g"

subsection \<open>The GUI library's state that the backend writes\<close>

datatype config_flag = ImGuiConfigFlags_IsTouchScreen | ImGuiConfigFlags_NavEnableKeyboard

text \<open>
  \<^verbatim>\<open>ImGuiIO\<close>, the font atlas behind \<^verbatim>\<open>io.Fonts\<close> and \<^verbatim>\<open>ImGuiStyle\<close>, as far as
  the backend touches them. \<open>StyleScale\<close> is the product of the factors given to
  \<^verbatim>\<open>ScaleAllSizes\<close> so far.
\<close>

record imgui =
  DisplaySize :: "real \<times> real"
  DeltaTime :: real
  FontGlobalScale :: real
  MousePos :: "real \<times> real"
  MouseDown0 :: bool
  ConfigFlags :: "config_flag set"
  Fonts_TexID :: nat
  Fonts_IsBuilt :: bool
  Fonts_Added :: "(string \<times> real) list"
  StyleScale :: real

subsection \<open>The backend's state\<close>

text \<open>
  \<open>g_*\<close> are the file-scope statics; \<open>lastWidth\<close>, \<open>lastHeight\<close>,
  \<open>displayScale\<close> and \<open>g_Time\<close> are the function-local statics of
  \<^verbatim>\<open>ImGui_ImplAndroid_NewFrame\<close>, which live as long as the process. \<open>gl\<close> is the
  GL context's ambient state, \<open>trace\<close> the calls issued so far in order, \<open>logs\<close>
  the log lines written so far.
\<close>

record state =
  g_EglDisplay :: nat
  g_EglSurface :: nat
  g_EglContext :: nat
  g_Window :: nat
  g_Initialized :: bool
  g_FontTexture :: nat
  g_ShaderHandle :: nat
  g_VertHandle :: nat
  g_FragHandle :: nat
  g_AttribLocationTex :: int
  g_AttribLocationProjMtx :: int
  g_AttribLocationVtxPos :: int
  g_AttribLocationVtxUV :: int
  g_AttribLocationVtxColor :: int
  g_VboHandle :: nat
  g_ElementsHandle :: nat
  lastWidth :: int
  lastHeight :: int
  displayScale :: real
  g_Time :: real
  gui :: imgui
  gl :: gl_state
  trace :: "api_call list"
  logs :: "log_entry list"

text \<open>
  What the platform answers during one call of an entry point: the EGL results, the
  native window's dimensions (by window handle), the GL object names handed out, the
  compile and link status and the information log of a shader or program, the locations
  of uniforms and attributes, the font atlas size and the GUI library's clock.
\<close>

record env =
  window_width :: "nat \<Rightarrow> int"
  window_height :: "nat \<Rightarrow> int"
  egl_display :: nat
  egl_initialize_ok :: bool
  egl_version :: "int \<times> int"
  egl_choose_config_ok :: bool
  egl_surface :: nat
  egl_context :: nat
  egl_make_current_ok :: bool
  new_shader :: "shader_kind \<Rightarrow> nat"
  new_program :: nat
  compile_status :: "nat \<Rightarrow> bool"
  shader_log_length :: "nat \<Rightarrow> int"
  shader_info_log :: "nat \<Rightarrow> string"
  link_status :: "nat \<Rightarrow> bool"
  program_log_length :: "nat \<Rightarrow> int"
  program_info_log :: "nat \<Rightarrow> string"
  uniform_location :: "nat \<Rightarrow> string \<Rightarrow> int"
  attrib_location :: "nat \<Rightarrow> string \<Rightarrow> int"
  new_vbo :: nat
  new_elements :: nat
  new_texture :: nat
  atlas_size :: "int \<times> int"
  imgui_time :: real

definition issue :: "api_call \<Rightarrow> state \<Rightarrow> state" where
  "issue c s = s\<lparr>gl := gl_apply c (gl s), trace := trace s @ [c]\<rparr>"

definition log_print :: "log_level \<Rightarrow> string \<Rightarrow> log_arg list \<Rightarrow> state \<Rightarrow> state" where
  "log_print lvl fmt args s = s\<lparr>logs := logs s @ [(lvl, fmt, args)]\<rparr>"

text \<open>The conversion \<^verbatim>\<open>(int)f\<close> of a floating-point value: the fraction is dropped.\<close>

definition c_int :: "real \<Rightarrow> int" where
  "c_int f = (if 0 \<le> f then \<lfloor>f\<rfloor> else \<lceil>f\<rceil>)"

section \<open>Input translation\<close>

text \<open>
  A platform input event: its type, and for a motion event the action word and the
  identifier and coordinates of each pointer index. The constants are those of the NDK
  header \<^verbatim>\<open>android/input.h\<close>.
\<close>

record input_event =
  ev_type :: int
  ev_action :: "32 word"
  ev_pointer_id :: "nat \<Rightarrow> int"
  ev_x :: "nat \<Rightarrow> real"
  ev_y :: "nat \<Rightarrow> real"

definition AINPUT_EVENT_TYPE_KEY :: int where "AINPUT_EVENT_TYPE_KEY = 1"
definition AINPUT_EVENT_TYPE_MOTION :: int where "AINPUT_EVENT_TYPE_MOTION = 2"
definition AMOTION_EVENT_ACTION_MASK :: "32 word" where "AMOTION_EVENT_ACTION_MASK = 0xff"
definition AMOTION_EVENT_ACTION_POINTER_INDEX_MASK :: "32 word" where
  "AMOTION_EVENT_ACTION_POINTER_INDEX_MASK = 0xff00"
definition AMOTION_EVENT_ACTION_POINTER_INDEX_SHIFT :: nat where
  "AMOTION_EVENT_ACTION_POINTER_INDEX_SHIFT = 8"
definition AMOTION_EVENT_ACTION_DOWN :: "32 word" where "AMOTION_EVENT_ACTION_DOWN = 0"
definition AMOTION_EVENT_ACTION_UP :: "32 word" where "AMOTION_EVENT_ACTION_UP = 1"
definition AMOTION_EVENT_ACTION_MOVE :: "32 word" where "AMOTION_EVENT_ACTION_MOVE = 2"
definition AMOTION_EVENT_ACTION_CANCEL :: "32 word" where "AMOTION_EVENT_ACTION_CANCEL = 3"
definition AMOTION_EVENT_ACTION_POINTER_DOWN :: "32 word" where
  "AMOTION_EVENT_ACTION_POINTER_DOWN = 5"
definition AMOTION_EVENT_ACTION_POINTER_UP :: "32 word" where
  "AMOTION_EVENT_ACTION_POINTER_UP = 6"

definition actionMasked :: "input_event \<Rightarrow> 32 word" where
  "actionMasked ev = ev_action ev AND AMOTION_EVENT_ACTION_MASK"

definition pointerIndex :: "input_event \<Rightarrow> nat" where
  "pointerIndex ev =
     unat (drop_bit AMOTION_EVENT_ACTION_POINTER_INDEX_SHIFT
             (ev_action ev AND AMOTION_EVENT_ACTION_POINTER_INDEX_MASK))"

text \<open>The \<^verbatim>\<open>switch (actionMasked)\<close> of the motion branch, on the GUI library's input state.\<close>

definition process_touch :: "32 word \<Rightarrow> real \<Rightarrow> real \<Rightarrow> imgui \<Rightarrow> imgui" where
  "process_touch a x y io =
     (if a = AMOTION_EVENT_ACTION_DOWN \<or> a = AMOTION_EVENT_ACTION_POINTER_DOWN
        then io\<lparr>MouseDown0 := True, MousePos := (x, y)\<rparr>
      else if a = AMOTION_EVENT_ACTION_MOVE
        then io\<lparr>MousePos := (x, y)\<rparr>
      else if a = AMOTION_EVENT_ACTION_UP \<or> a = AMOTION_EVENT_ACTION_POINTER_UP
              \<or> a = AMOTION_EVENT_ACTION_CANCEL
        then io\<lparr>MouseDown0 := False\<rparr>
      else io)"

definition ImGui_ImplAndroid_HandleInputEvent :: "input_event \<Rightarrow> state \<Rightarrow> bool \<times> state" where
  "ImGui_ImplAndroid_HandleInputEvent ev s =
     (if \<not> g_Initialized s then (False, s)
      else if ev_type ev = AINPUT_EVENT_TYPE_MOTION then
        (let x = ev_x ev (pointerIndex ev);
             y = ev_y ev (pointerIndex ev);
             s1 = log_print ANDROID_LOG_INFO ''Touch event: action=%d, x=%f, y=%f''
                    [LInt (sint (actionMasked ev)), LReal x, LReal y] s
         in (True, s1\<lparr>gui := process_touch (actionMasked ev) x y (gui s1)\<rparr>))
      else (False, s))"

section \<open>Pipeline objects and the font atlas\<close>

definition when_do :: "bool \<Rightarrow> (state \<Rightarrow> state) \<Rightarrow> state \<Rightarrow> state" where
  "when_do b f s = (if b then f s else s)"

text \<open>
  \<^verbatim>\<open>CheckShader\<close> and \<^verbatim>\<open>CheckProgram\<close>: the status decides the result; the
  information log is written only when its reported length exceeds one.
  \<^verbatim>\<open>glGetShaderInfoLog\<close> with buffer size \<open>log_length\<close> returns at most
  \<open>log_length - 1\<close> characters.
\<close>

definition CheckShader :: "env \<Rightarrow> nat \<Rightarrow> string \<Rightarrow> state \<Rightarrow> bool \<times> state" where
  "CheckShader e handle desc s =
     (let status = compile_status e handle;
          log_length = shader_log_length e handle
      in if \<not> status then
           (False,
            when_do (log_length > 1)
              (log_print ANDROID_LOG_ERROR ''ERROR: %s shader failed to compile: %s''
                 [LStr desc, LStr (take (nat (log_length - 1)) (shader_info_log e handle))]) s)
         else (True, s))"

definition CheckProgram :: "env \<Rightarrow> nat \<Rightarrow> string \<Rightarrow> state \<Rightarrow> bool \<times> state" where
  "CheckProgram e handle desc s =
     (let status = link_status e handle;
          log_length = program_log_length e handle
      in if \<not> status then
           (False,
            when_do (log_length > 1)
              (log_print ANDROID_LOG_ERROR ''ERROR: %s program failed to link: %s''
                 [LStr desc, LStr (take (nat (log_length - 1)) (program_info_log e handle))]) s)
         else (True, s))"

text \<open>
  \<^verbatim>\<open>CreateDeviceObjects\<close>. The results of the three checks are dropped, as in the
  source, and the function ends in \<^verbatim>\<open>return true\<close>.
\<close>

definition CreateDeviceObjects :: "env \<Rightarrow> state \<Rightarrow> bool \<times> state" where
  "CreateDeviceObjects e s =
     (let s1 = (issue (GlCreateShader GL_VERTEX_SHADER) s)\<lparr>g_VertHandle := new_shader e GL_VERTEX_SHADER\<rparr>;
          s2 = issue (GlShaderSource (g_VertHandle s1)) s1;
          s3 = issue (GlCompileShader (g_VertHandle s2)) s2;
          s4 = snd (CheckShader e (g_VertHandle s3) ''vertex shader'' s3);
          s5 = (issue (GlCreateShader GL_FRAGMENT_SHADER) s4)\<lparr>g_FragHandle := new_shader e GL_FRAGMENT_SHADER\<rparr>;
          s6 = issue (GlShaderSource (g_FragHandle s5)) s5;
          s7 = issue (GlCompileShader (g_FragHandle s6)) s6;
          s8 = snd (CheckShader e (g_FragHandle s7) ''fragment shader'' s7);
          s9 = (issue GlCreateProgram s8)\<lparr>g_ShaderHandle := new_program e\<rparr>;
          s10 = issue (GlAttachShader (g_ShaderHandle s9) (g_VertHandle s9)) s9;
          s11 = issue (GlAttachShader (g_ShaderHandle s10) (g_FragHandle s10)) s10;
          s12 = issue (GlLinkProgram (g_ShaderHandle s11)) s11;
          s13 = snd (CheckProgram e (g_ShaderHandle s12) ''shader program'' s12);
          s14 = s13\<lparr>g_AttribLocationTex := uniform_location e (g_ShaderHandle s13) ''Texture'',
                    g_AttribLocationProjMtx := uniform_location e (g_ShaderHandle s13) ''ProjMtx'',
                    g_AttribLocationVtxPos := attrib_location e (g_ShaderHandle s13) ''Position'',
                    g_AttribLocationVtxUV := attrib_location e (g_ShaderHandle s13) ''UV'',
                    g_AttribLocationVtxColor := attrib_location e (g_ShaderHandle s13) ''Color''\<rparr>;
          s15 = (issue GlGenBuffers s14)\<lparr>g_VboHandle := new_vbo e\<rparr>;
          s16 = (issue GlGenBuffers s15)\<lparr>g_ElementsHandle := new_elements e\<rparr>
      in (True, s16))"

text \<open>
  \<^verbatim>\<open>CreateFontsTexture\<close>. \<^verbatim>\<open>GetTexDataAsRGBA32\<close> builds the atlas; the texture
  bound on the active unit is read before and bound again after the upload.
\<close>

definition CreateFontsTexture :: "env \<Rightarrow> state \<Rightarrow> bool \<times> state" where
  "CreateFontsTexture e s =
     (let s1 = s\<lparr>gui := (gui s)\<lparr>Fonts_IsBuilt := True\<rparr>\<rparr>;
          (width, height) = atlas_size e;
          last_texture = texture_binding_2d (gl s1) (active_texture (gl s1));
          s2 = (issue GlGenTextures s1)\<lparr>g_FontTexture := new_texture e\<rparr>;
          s3 = issue (GlBindTexture (g_FontTexture s2)) s2;
          s4 = issue GlTexParameteri s3;
          s5 = issue GlTexParameteri s4;
          s6 = issue (GlTexImage2D width height) s5;
          s7 = s6\<lparr>gui := (gui s6)\<lparr>Fonts_TexID := g_FontTexture s6\<rparr>\<rparr>;
          s8 = issue (GlBindTexture last_texture) s7
      in (True, s8))"

section \<open>Surface and context management\<close>

definition fail_with :: "string \<Rightarrow> state \<Rightarrow> bool \<times> state" where
  "fail_with msg s = (False, log_print ANDROID_LOG_ERROR msg [] s)"

text \<open>
  The tail of \<^verbatim>\<open>ImGui_ImplAndroid_Init\<close> after the context is current.
  \<^verbatim>\<open>AddFontFromFileTTF\<close> adds a font, which leaves the atlas to be built again.
\<close>

definition init_finish :: "env \<Rightarrow> int \<Rightarrow> int \<Rightarrow> state \<Rightarrow> bool \<times> state" where
  "init_finish e windowWidth windowHeight s =
     (let s1 = s\<lparr>gui := (gui s)\<lparr>DisplaySize := (real_of_int windowWidth, real_of_int windowHeight)\<rparr>\<rparr>;
          s2 = s1\<lparr>gui := (gui s1)\<lparr>ConfigFlags := insert ImGuiConfigFlags_IsTouchScreen (ConfigFlags (gui s1))\<rparr>\<rparr>;
          s3 = s2\<lparr>gui := (gui s2)\<lparr>ConfigFlags := insert ImGuiConfigFlags_NavEnableKeyboard (ConfigFlags (gui s2))\<rparr>\<rparr>;
          s4 = s3\<lparr>gui := (gui s3)\<lparr>StyleScale := StyleScale (gui s3) * 2\<rparr>\<rparr>;
          s5 = s4\<lparr>gui := (gui s4)\<lparr>Fonts_Added := Fonts_Added (gui s4) @ [(''/system/fonts/DroidSans.ttf'', 24)],
                                  Fonts_IsBuilt := False\<rparr>\<rparr>;
          s6 = snd (CreateDeviceObjects e s5);
          s7 = snd (CreateFontsTexture e s6)
      in (True, s7\<lparr>g_Initialized := True\<rparr>))"

text \<open>The EGL part of \<^verbatim>\<open>ImGui_ImplAndroid_Init\<close>: each failure returns at once.\<close>

definition init_egl :: "env \<Rightarrow> int \<Rightarrow> int \<Rightarrow> state \<Rightarrow> bool \<times> state" where
  "init_egl e windowWidth windowHeight s =
     (let s1 = (issue EglGetDisplay s)\<lparr>g_EglDisplay := egl_display e\<rparr> in
      if g_EglDisplay s1 = 0 then fail_with ''Failed to get EGL display'' s1
      else
        let s2 = issue (EglInitialize (g_EglDisplay s1)) s1 in
        if \<not> egl_initialize_ok e then fail_with ''Failed to initialize EGL'' s2
        else
          let s3 = log_print ANDROID_LOG_INFO ''EGL initialized: version %d.%d''
                     [LInt (fst (egl_version e)), LInt (snd (egl_version e))] s2;
              s4 = issue (EglChooseConfig (g_EglDisplay s3)) s3 in
          if \<not> egl_choose_config_ok e then fail_with ''Failed to choose EGL config'' s4
          else
            let s5 = (issue (EglCreateWindowSurface (g_EglDisplay s4) (g_Window s4)) s4)
                       \<lparr>g_EglSurface := egl_surface e\<rparr> in
            if g_EglSurface s5 = 0 then fail_with ''Failed to create EGL surface'' s5
            else
              let s6 = (issue (EglCreateContext (g_EglDisplay s5)) s5)\<lparr>g_EglContext := egl_context e\<rparr> in
              if g_EglContext s6 = 0 then fail_with ''Failed to create EGL context'' s6
              else
                let s7 = issue (EglMakeCurrent (g_EglDisplay s6) (g_EglSurface s6) (g_EglSurface s6)
                                  (g_EglContext s6)) s6 in
                if \<not> egl_make_current_ok e then fail_with ''Failed to make EGL context current'' s7
                else init_finish e windowWidth windowHeight s7)"

definition ImGui_ImplAndroid_Init :: "env \<Rightarrow> nat \<Rightarrow> state \<Rightarrow> bool \<times> state" where
  "ImGui_ImplAndroid_Init e window s =
     (let s0 = s\<lparr>g_Window := window\<rparr> in
      if window = 0 then fail_with ''Null window passed to ImGui_ImplAndroid_Init'' s0
      else
        let s1 = issue (ANativeWindow_acquire window) s0;
            windowWidth = window_width e window;
            windowHeight = window_height e window;
            s2 = issue (ANativeWindow_release window) s1;
            s3 = log_print ANDROID_LOG_INFO ''ImGui_ImplAndroid_Init with window: %p, dimensions: %dx%d''
                   [LPtr window, LInt windowWidth, LInt windowHeight] s2 in
        if windowWidth \<le> 0 \<or> windowHeight \<le> 0 then fail_with ''Invalid window dimensions'' s3
        else init_egl e windowWidth windowHeight s3)"

text \<open>\<^verbatim>\<open>ImGui_ImplAndroid_Shutdown\<close>, statement by statement.\<close>

definition shutdown_gl :: "state \<Rightarrow> state" where
  "shutdown_gl s =
     (let s1 = when_do (g_VboHandle s \<noteq> 0) (issue (GlDeleteBuffers (g_VboHandle s))) s;
          s2 = when_do (g_ElementsHandle s1 \<noteq> 0) (issue (GlDeleteBuffers (g_ElementsHandle s1))) s1;
          s3 = s2\<lparr>g_VboHandle := 0, g_ElementsHandle := 0\<rparr>;
          s4 = when_do (g_ShaderHandle s3 \<noteq> 0 \<and> g_VertHandle s3 \<noteq> 0)
                 (issue (GlDetachShader (g_ShaderHandle s3) (g_VertHandle s3))) s3;
          s5 = when_do (g_VertHandle s4 \<noteq> 0) (issue (GlDeleteShader (g_VertHandle s4))) s4;
          s6 = s5\<lparr>g_VertHandle := 0\<rparr>;
          s7 = when_do (g_ShaderHandle s6 \<noteq> 0 \<and> g_FragHandle s6 \<noteq> 0)
                 (issue (GlDetachShader (g_ShaderHandle s6) (g_FragHandle s6))) s6;
          s8 = when_do (g_FragHandle s7 \<noteq> 0) (issue (GlDeleteShader (g_FragHandle s7))) s7;
          s9 = s8\<lparr>g_FragHandle := 0\<rparr>;
          s10 = when_do (g_ShaderHandle s9 \<noteq> 0) (issue (GlDeleteProgram (g_ShaderHandle s9))) s9;
          s11 = s10\<lparr>g_ShaderHandle := 0\<rparr>
      in when_do (g_FontTexture s11 \<noteq> 0)
           (\<lambda>t. (issue (GlDeleteTextures (g_FontTexture t)) t)
                   \<lparr>gui := (gui t)\<lparr>Fonts_TexID := 0\<rparr>, g_FontTexture := 0\<rparr>) s11)"

definition shutdown_egl :: "state \<Rightarrow> state" where
  "shutdown_egl s =
     when_do (g_EglDisplay s \<noteq> 0)
       (\<lambda>t. let t1 = log_print ANDROID_LOG_INFO ''Destroying EGL resources'' [] t;
                 t2 = issue (EglMakeCurrent (g_EglDisplay t1) 0 0 0) t1;
                 t3 = when_do (g_EglContext t2 \<noteq> 0)
                        (issue (EglDestroyContext (g_EglDisplay t2) (g_EglContext t2))) t2;
                 t4 = when_do (g_EglSurface t3 \<noteq> 0)
                        (issue (EglDestroySurface (g_EglDisplay t3) (g_EglSurface t3))) t3
             in issue (EglTerminate (g_EglDisplay t4)) t4) s"

definition ImGui_ImplAndroid_Shutdown :: "state \<Rightarrow> state" where
  "ImGui_ImplAndroid_Shutdown s =
     (let s1 = log_print ANDROID_LOG_INFO ''ImGui_ImplAndroid_Shutdown called'' [] s;
          s2 = shutdown_gl s1;
          s3 = shutdown_egl s2;
          s4 = s3\<lparr>g_EglDisplay := 0, g_EglContext := 0, g_EglSurface := 0, g_Window := 0,
                  g_Initialized := False\<rparr>
      in log_print ANDROID_LOG_INFO ''ImGui_ImplAndroid_Shutdown completed'' [] s4)"

section \<open>Display metrics and frame timing\<close>

text \<open>
  The scale chosen in \<^verbatim>\<open>ImGui_ImplAndroid_NewFrame\<close> when the window size changed:
  \<open>2\<close> for high-resolution, \<open>3/2\<close> for medium-resolution and \<open>1\<close> for low-resolution
  screens.
\<close>

definition scale_for :: "int \<Rightarrow> int \<Rightarrow> real" where
  "scale_for windowWidth windowHeight =
     (if windowWidth > 1080 \<or> windowHeight > 1080 then 2
      else if windowWidth > 720 \<or> windowHeight > 720 then 3 / 2
      else 1)"

text \<open>
  \<^verbatim>\<open>ImGui_ImplAndroid_NewFrame\<close>. The \<^verbatim>\<open>density\<close> local of the source is computed
  and never read; it is left out, the acquire and release around it are kept.
\<close>

definition ImGui_ImplAndroid_NewFrame :: "env \<Rightarrow> state \<Rightarrow> state" where
  "ImGui_ImplAndroid_NewFrame e s =
     (if \<not> g_Initialized s then
        log_print ANDROID_LOG_WARN ''ImGui_ImplAndroid_NewFrame called but not initialized'' [] s
      else
        let s1 = issue (EglMakeCurrent (g_EglDisplay s) (g_EglSurface s) (g_EglSurface s) (g_EglContext s)) s in
        if \<not> egl_make_current_ok e then
          log_print ANDROID_LOG_ERROR ''Failed to make EGL context current in NewFrame'' [] s1
        else
          let windowWidth = window_width e (g_Window s1);
              windowHeight = window_height e (g_Window s1);
              orientationChanged = (lastWidth s1 \<noteq> windowWidth \<or> lastHeight s1 \<noteq> windowHeight);
              s2 = when_do orientationChanged
                     (log_print ANDROID_LOG_INFO ''Orientation/size changed: %dx%d -> %dx%d''
                        [LInt (lastWidth s1), LInt (lastHeight s1), LInt windowWidth, LInt windowHeight]) s1;
              s3 = s2\<lparr>lastWidth := windowWidth, lastHeight := windowHeight\<rparr>;
              s4 = s3\<lparr>gui := (gui s3)\<lparr>DisplaySize := (real_of_int windowWidth, real_of_int windowHeight)\<rparr>\<rparr>;
              s5 = when_do orientationChanged
                     (\<lambda>t. let t1 = issue (ANativeWindow_acquire (g_Window t)) t;
                               t2 = issue (ANativeWindow_release (g_Window t1)) t1;
                               t3 = t2\<lparr>displayScale := scale_for windowWidth windowHeight\<rparr>
                           in t3\<lparr>gui := (gui t3)\<lparr>StyleScale := StyleScale (gui t3) * displayScale t3,
                                                  FontGlobalScale := displayScale t3\<rparr>\<rparr>) s4;
              current_time = imgui_time e;
              s6 = s5\<lparr>gui := (gui s5)\<lparr>DeltaTime :=
                         (if g_Time s5 > 0 then current_time - g_Time s5 else 1 / 60)\<rparr>\<rparr>;
              s7 = s6\<lparr>g_Time := current_time\<rparr>
          in when_do (\<not> Fonts_IsBuilt (gui s7)) (\<lambda>t. snd (CreateFontsTexture e t)) s7)"

section \<open>The frame renderer\<close>

text \<open>
  The draw data handed over by the GUI library. A command's user callback is arbitrary
  code run on the GL context; it is modelled by what it does to the ambient state.
  Vertex and index buffers are kept by their sizes only.
\<close>

record draw_cmd =
  ClipRect :: "real \<times> real \<times> real \<times> real"
  TextureId :: nat
  ElemCount :: nat
  UserCallback :: "(gl_state \<Rightarrow> gl_state) option"

record draw_list =
  VtxBuffer_Size :: nat
  IdxBuffer_Size :: nat
  CmdBuffer :: "draw_cmd list"

record draw_data =
  DrawDisplaySize :: "real \<times> real"
  CmdLists :: "draw_list list"

text \<open>\<^verbatim>\<open>sizeof(ImDrawVert)\<close>, \<^verbatim>\<open>sizeof(ImDrawIdx)\<close> and the field offsets of \<^verbatim>\<open>imgui.h\<close>.\<close>

definition sizeof_ImDrawVert :: nat where "sizeof_ImDrawVert = 20"
definition sizeof_ImDrawIdx :: nat where "sizeof_ImDrawIdx = 2"

text \<open>The \<^verbatim>\<open>last_*\<close> locals of \<^verbatim>\<open>ImGui_ImplAndroid_RenderDrawData\<close>.\<close>

record gl_backup =
  last_active_texture :: nat
  last_program :: nat
  last_texture :: nat
  last_array_buffer :: nat
  last_element_array_buffer :: nat
  last_vertex_array :: nat
  last_blend_src_rgb :: nat
  last_blend_dst_rgb :: nat
  last_blend_src_alpha :: nat
  last_blend_dst_alpha :: nat
  last_blend_equation_rgb :: nat
  last_blend_equation_alpha :: nat
  last_viewport :: "int \<times> int \<times> int \<times> int"
  last_scissor_box :: "int \<times> int \<times> int \<times> int"
  last_enable_blend :: bool
  last_enable_cull_face :: bool
  last_enable_depth_test :: bool
  last_enable_scissor_test :: bool

text \<open>
  ``Backup GL state'': the active unit is read, then unit 0 is made active, then the
  other values are read (the texture binding therefore on unit 0).
\<close>

definition backup_gl_state :: "state \<Rightarrow> gl_backup \<times> state" where
  "backup_gl_state s =
     (let lat = active_texture (gl s);
          s1 = issue (GlActiveTexture GL_TEXTURE0) s;
          g = gl s1
      in (\<lparr>last_active_texture = lat,
           last_program = current_program g,
           last_texture = texture_binding_2d g (active_texture g),
           last_array_buffer = array_buffer_binding g,
           last_element_array_buffer = element_array_buffer_binding g,
           last_vertex_array = vertex_array_binding g,
           last_blend_src_rgb = blend_src_rgb g,
           last_blend_dst_rgb = blend_dst_rgb g,
           last_blend_src_alpha = blend_src_alpha g,
           last_blend_dst_alpha = blend_dst_alpha g,
           last_blend_equation_rgb = blend_equation_rgb g,
           last_blend_equation_alpha = blend_equation_alpha g,
           last_viewport = viewport g,
           last_scissor_box = scissor_box g,
           last_enable_blend = enable_blend g,
           last_enable_cull_face = enable_cull_face g,
           last_enable_depth_test = enable_depth_test g,
           last_enable_scissor_test = enable_scissor_test g\<rparr>, s1))"

text \<open>
  ``Restore modified GL state'': the calls of the source, in its order.
  \<open>last_active_texture\<close> and \<open>last_vertex_array\<close> are not used by any of them.
\<close>

definition restore_gl_state :: "gl_backup \<Rightarrow> state \<Rightarrow> state" where
  "restore_gl_state b s =
     (let s1 = issue (GlUseProgram (last_program b)) s;
          s2 = issue (GlBindTexture (last_texture b)) s1;
          s3 = issue (GlBindBuffer GL_ARRAY_BUFFER (last_array_buffer b)) s2;
          s4 = issue (GlBindBuffer GL_ELEMENT_ARRAY_BUFFER (last_element_array_buffer b)) s3;
          s5 = issue (GlBlendEquationSeparate (last_blend_equation_rgb b) (last_blend_equation_alpha b)) s4;
          s6 = issue (GlBlendFuncSeparate (last_blend_src_rgb b) (last_blend_dst_rgb b)
                        (last_blend_src_alpha b) (last_blend_dst_alpha b)) s5;
          s7 = issue (if last_enable_blend b then GlEnable GL_BLEND else GlDisable GL_BLEND) s6;
          s8 = issue (if last_enable_cull_face b then GlEnable GL_CULL_FACE else GlDisable GL_CULL_FACE) s7;
          s9 = issue (if last_enable_depth_test b then GlEnable GL_DEPTH_TEST else GlDisable GL_DEPTH_TEST) s8;
          s10 = issue (if last_enable_scissor_test b then GlEnable GL_SCISSOR_TEST
                       else GlDisable GL_SCISSOR_TEST) s9;
          s11 = (case last_viewport b of (x, y, w, h) \<Rightarrow> issue (GlViewport x y w h) s10)
      in (case last_scissor_box b of (x, y, w, h) \<Rightarrow> issue (GlScissor x y w h) s11))"

text \<open>``Setup render state'' and ``Setup viewport''.\<close>

definition setup_render_state :: "int \<Rightarrow> int \<Rightarrow> state \<Rightarrow> state" where
  "setup_render_state fb_width fb_height s =
     (let s1 = issue (GlEnable GL_BLEND) s;
          s2 = issue (GlBlendEquation GL_FUNC_ADD) s1;
          s3 = issue (GlBlendFuncSeparate GL_SRC_ALPHA GL_ONE_MINUS_SRC_ALPHA GL_ONE GL_ONE_MINUS_SRC_ALPHA) s2;
          s4 = issue (GlDisable GL_CULL_FACE) s3;
          s5 = issue (GlDisable GL_DEPTH_TEST) s4;
          s6 = issue (GlEnable GL_SCISSOR_TEST) s5;
          s7 = issue (GlViewport 0 0 fb_width fb_height) s6;
          s8 = issue GlClearColor s7
      in issue GlClear s8)"

text \<open>The orthographic projection, row by row.\<close>

definition ortho_projection :: "real \<times> real \<Rightarrow> real list" where
  "ortho_projection ds =
     (let L = 0; R = fst ds; T = 0; B = snd ds
      in [2 / (R - L), 0, 0, 0,
          0, 2 / (T - B), 0, 0,
          0, 0, - 1, 0,
          (R + L) / (L - R), (T + B) / (B - T), 0, 1])"

definition setup_program :: "real \<times> real \<Rightarrow> state \<Rightarrow> state" where
  "setup_program ds s =
     (let s1 = issue (GlUseProgram (g_ShaderHandle s)) s;
          s2 = issue (GlUniform1i (g_AttribLocationTex s1) 0) s1
      in issue (GlUniformMatrix4fv (g_AttribLocationProjMtx s2) (ortho_projection ds)) s2)"

text \<open>
  The scissor rectangle of a command: the four values converted to \<^verbatim>\<open>int\<close>, then
  each negative one replaced by zero.
\<close>

definition scissor_raw :: "int \<Rightarrow> real \<times> real \<times> real \<times> real \<Rightarrow> int \<times> int \<times> int \<times> int" where
  "scissor_raw fb_height cr =
     (case cr of (x, y, z, w) \<Rightarrow>
        (c_int x, c_int (real_of_int fb_height - w), c_int (z - x), c_int (w - y)))"

definition scissor_rect :: "int \<Rightarrow> real \<times> real \<times> real \<times> real \<Rightarrow> int \<times> int \<times> int \<times> int" where
  "scissor_rect fb_height cr =
     (case scissor_raw fb_height cr of (scissor_x, scissor_y, scissor_w, scissor_h) \<Rightarrow>
        (if scissor_x < 0 then 0 else scissor_x,
         if scissor_y < 0 then 0 else scissor_y,
         if scissor_w < 0 then 0 else scissor_w,
         if scissor_h < 0 then 0 else scissor_h))"

text \<open>The body of the inner loop for one command, at the running index offset.\<close>

definition render_cmd :: "int \<Rightarrow> nat \<Rightarrow> draw_cmd \<Rightarrow> state \<Rightarrow> state" where
  "render_cmd fb_height idx_offset pcmd s =
     (case UserCallback pcmd of
        Some f \<Rightarrow> s\<lparr>gl := f (gl s), trace := trace s @ [InvokeUserCallback]\<rparr>
      | None \<Rightarrow>
          (case scissor_rect fb_height (ClipRect pcmd) of (x, y, w, h) \<Rightarrow>
             let s1 = issue (GlScissor x y w h) s;
                 s2 = issue (GlBindTexture (TextureId pcmd)) s1
             in issue (GlDrawElements (ElemCount pcmd) (idx_offset * sizeof_ImDrawIdx)) s2))"

fun render_cmds :: "int \<Rightarrow> nat \<Rightarrow> draw_cmd list \<Rightarrow> state \<Rightarrow> state" where
  "render_cmds fb_height idx_offset [] s = s"
| "render_cmds fb_height idx_offset (pcmd # rest) s =
     render_cmds fb_height (idx_offset + ElemCount pcmd) rest (render_cmd fb_height idx_offset pcmd s)"

text \<open>The body of the outer loop for one draw list.\<close>

definition render_list :: "int \<Rightarrow> draw_list \<Rightarrow> state \<Rightarrow> state" where
  "render_list fb_height cmd_list s =
     (let s1 = issue (GlBindBuffer GL_ARRAY_BUFFER (g_VboHandle s)) s;
          s2 = issue (GlBufferData GL_ARRAY_BUFFER (VtxBuffer_Size cmd_list * sizeof_ImDrawVert)) s1;
          s3 = issue (GlBindBuffer GL_ELEMENT_ARRAY_BUFFER (g_ElementsHandle s2)) s2;
          s4 = issue (GlBufferData GL_ELEMENT_ARRAY_BUFFER (IdxBuffer_Size cmd_list * sizeof_ImDrawIdx)) s3;
          s5 = issue (GlEnableVertexAttribArray (g_AttribLocationVtxPos s4)) s4;
          s6 = issue (GlEnableVertexAttribArray (g_AttribLocationVtxUV s5)) s5;
          s7 = issue (GlEnableVertexAttribArray (g_AttribLocationVtxColor s6)) s6;
          s8 = issue (GlVertexAttribPointer (g_AttribLocationVtxPos s7) 0) s7;
          s9 = issue (GlVertexAttribPointer (g_AttribLocationVtxUV s8) 8) s8;
          s10 = issue (GlVertexAttribPointer (g_AttribLocationVtxColor s9) 16) s9
      in render_cmds fb_height 0 (CmdBuffer cmd_list) s10)"

fun render_lists :: "int \<Rightarrow> draw_list list \<Rightarrow> state \<Rightarrow> state" where
  "render_lists fb_height [] s = s"
| "render_lists fb_height (cmd_list # rest) s = render_lists fb_height rest (render_list fb_height cmd_list s)"

text \<open>
  \<^verbatim>\<open>ImGui_ImplAndroid_RenderDrawData\<close>; a null \<^verbatim>\<open>draw_data\<close> is \<open>None\<close>.
\<close>

definition ImGui_ImplAndroid_RenderDrawData :: "env \<Rightarrow> draw_data option \<Rightarrow> state \<Rightarrow> state" where
  "ImGui_ImplAndroid_RenderDrawData e draw_data s =
     (case draw_data of
        None \<Rightarrow> s
      | Some dd \<Rightarrow>
          if \<not> g_Initialized s then s
          else
            let s1 = issue (EglMakeCurrent (g_EglDisplay s) (g_EglSurface s) (g_EglSurface s) (g_EglContext s)) s in
            if \<not> egl_make_current_ok e then s1
            else
              let fb_width = c_int (fst (DrawDisplaySize dd));
                  fb_height = c_int (snd (DrawDisplaySize dd)) in
              if fb_width \<le> 0 \<or> fb_height \<le> 0 then s1
              else
                let (b, s2) = backup_gl_state s1;
                    s3 = setup_render_state fb_width fb_height s2;
                    s4 = setup_program (DrawDisplaySize dd) s3;
                    s5 = render_lists fb_height (CmdLists dd) s4;
                    s6 = restore_gl_state b s5
                in issue (EglSwapBuffers (g_EglDisplay s6) (g_EglSurface s6)) s6)"

section \<open>A concrete platform and the state at process start\<close>

text \<open>
  The state when the process starts: every global and function-local static at its
  initialiser, a fresh GUI context, and a GL context in its default state for a
  1080 by 1920 surface.
\<close>

definition initial_gl :: gl_state where
  "initial_gl =
     \<lparr>active_texture = GL_TEXTURE0, current_program = 0, texture_binding_2d = (\<lambda>_. 0),
      array_buffer_binding = 0, element_array_buffer_binding = 0, vertex_array_binding = 0,
      blend_src_rgb = 1, blend_dst_rgb = 0, blend_src_alpha = 1, blend_dst_alpha = 0,
      blend_equation_rgb = GL_FUNC_ADD, blend_equation_alpha = GL_FUNC_ADD,
      viewport = (0, 0, 1080, 1920), scissor_box = (0, 0, 1080, 1920),
      enable_blend = False, enable_cull_face = False, enable_depth_test = False,
      enable_scissor_test = False\<rparr>"

definition initial_gui :: imgui where
  "initial_gui =
     \<lparr>DisplaySize = (- 1, - 1), DeltaTime = 1 / 60, FontGlobalScale = 1, MousePos = (- 1, - 1),
      MouseDown0 = False, ConfigFlags = {}, Fonts_TexID = 0, Fonts_IsBuilt = False,
      Fonts_Added = [], StyleScale = 1\<rparr>"

definition initial_state :: state where
  "initial_state =
     \<lparr>g_EglDisplay = 0, g_EglSurface = 0, g_EglContext = 0, g_Window = 0, g_Initialized = False,
      g_FontTexture = 0, g_ShaderHandle = 0, g_VertHandle = 0, g_FragHandle = 0,
      g_AttribLocationTex = 0, g_AttribLocationProjMtx = 0, g_AttribLocationVtxPos = 0,
      g_AttribLocationVtxUV = 0, g_AttribLocationVtxColor = 0, g_VboHandle = 0, g_ElementsHandle = 0,
      lastWidth = 0, lastHeight = 0, displayScale = 1, g_Time = 0,
      gui = initial_gui, gl = initial_gl, trace = [], logs = []\<rparr>"

text \<open>
  A platform on which everything succeeds: a 1080 by 1920 window, display 1, surface 2,
  context 3, shaders 1 and 2 linked into program 3, buffers 1 and 2, texture 1.
\<close>

definition good_env :: env where
  "good_env =
     \<lparr>window_width = (\<lambda>_. 1080), window_height = (\<lambda>_. 1920),
      egl_display = 1, egl_initialize_ok = True, egl_version = (1, 4), egl_choose_config_ok = True,
      egl_surface = 2, egl_context = 3, egl_make_current_ok = True,
      new_shader = (\<lambda>k. case k of GL_VERTEX_SHADER \<Rightarrow> 1 | GL_FRAGMENT_SHADER \<Rightarrow> 2),
      new_program = 3,
      compile_status = (\<lambda>_. True), shader_log_length = (\<lambda>_. 0), shader_info_log = (\<lambda>_. []),
      link_status = (\<lambda>_. True), program_log_length = (\<lambda>_. 0), program_info_log = (\<lambda>_. []),
      uniform_location = (\<lambda>_ n. if n = ''Texture'' then 0 else 1),
      attrib_location = (\<lambda>_ n. if n = ''Position'' then 0 else if n = ''UV'' then 1 else 2),
      new_vbo = 1, new_elements = 2, new_texture = 1, atlas_size = (512, 64), imgui_time = 1\<rparr>"

text \<open>The backend after a successful \<^verbatim>\<open>init\<close> on that platform, window handle 1.\<close>

definition ready_state :: state where
  "ready_state = snd (ImGui_ImplAndroid_Init good_env 1 initial_state)"

text \<open>A frame of 1080 by 1920 with no draw list.\<close>

definition empty_frame :: draw_data where
  "empty_frame = \<lparr>DrawDisplaySize = (1080, 1920), CmdLists = []\<rparr>"

text \<open>A pointer-down, a pointer-up and a key event, as the platform delivers them.\<close>

definition pointer_down_50_60 :: input_event where
  "pointer_down_50_60 =
     \<lparr>ev_type = AINPUT_EVENT_TYPE_MOTION, ev_action = AMOTION_EVENT_ACTION_DOWN,
      ev_pointer_id = (\<lambda>_. 0), ev_x = (\<lambda>_. 50), ev_y = (\<lambda>_. 60)\<rparr>"

definition pointer_up_70_80 :: input_event where
  "pointer_up_70_80 =
     \<lparr>ev_type = AINPUT_EVENT_TYPE_MOTION, ev_action = AMOTION_EVENT_ACTION_UP,
      ev_pointer_id = (\<lambda>_. 0), ev_x = (\<lambda>_. 70), ev_y = (\<lambda>_. 80)\<rparr>"

definition key_event :: input_event where
  "key_event =
     \<lparr>ev_type = AINPUT_EVENT_TYPE_KEY, ev_action = 0,
      ev_pointer_id = (\<lambda>_. 0), ev_x = (\<lambda>_. 0), ev_y = (\<lambda>_. 0)\<rparr>"

text \<open>A motion event of a kind the backend does not process (hover move, action 7).\<close>

definition hover_move_event :: input_event where
  "hover_move_event =
     \<lparr>ev_type = AINPUT_EVENT_TYPE_MOTION, ev_action = 7,
      ev_pointer_id = (\<lambda>_. 0), ev_x = (\<lambda>_. 5), ev_y = (\<lambda>_. 6)\<rparr>"

text \<open>
  Two draw commands without callback: one whose clip rectangle is inverted (its right
  edge left of its left edge, its bottom above its top), one whose clip rectangle starts
  off screen and ends below a framebuffer of height 1920.
\<close>

definition inverted_clip_cmd :: draw_cmd where
  "inverted_clip_cmd =
     \<lparr>ClipRect = (100, 300, 50, 200), TextureId = 1, ElemCount = 6, UserCallback = None\<rparr>"

definition offscreen_clip_cmd :: draw_cmd where
  "offscreen_clip_cmd =
     \<lparr>ClipRect = (- 10, - 20, 30, 2000), TextureId = 1, ElemCount = 6, UserCallback = None\<rparr>"

text \<open>The platform \<open>good_env\<close> with the GUI library's clock at \<open>t\<close>.\<close>

definition env_at :: "real \<Rightarrow> env" where
  "env_at t = good_env\<lparr>imgui_time := t\<rparr>"

text \<open>
  A second session in the same process: one frame at time 5, then \<^verbatim>\<open>shutdown\<close>, then
  \<^verbatim>\<open>init\<close> again.
\<close>

definition restarted_state :: state where
  "restarted_state =
     snd (ImGui_ImplAndroid_Init good_env 1
            (ImGui_ImplAndroid_Shutdown (ImGui_ImplAndroid_NewFrame (env_at 5) ready_state)))"

text \<open>
  The initialised backend on a context that another renderer shares and has left with
  texture unit 1 active.
\<close>

definition shared_context_state :: state where
  "shared_context_state = ready_state\<lparr>gl := (gl ready_state)\<lparr>active_texture := GL_TEXTURE0 + 1\<rparr>\<rparr>"

text \<open>
  The ambient state with the four things blanked that the draw loop writes: the texture
  bound on the active unit, the two buffer bindings and the scissor box.
\<close>

definition ambient_rest :: "gl_state \<Rightarrow> gl_state" where
  "ambient_rest g =
     g\<lparr>texture_binding_2d := (texture_binding_2d g)(active_texture g := 0),
       array_buffer_binding := 0, element_array_buffer_binding := 0, scissor_box := (0, 0, 0, 0)\<rparr>"

text \<open>A draw call in the sense of the renderer: an indexed triangle draw.\<close>

fun is_draw_call :: "api_call \<Rightarrow> bool" where
  "is_draw_call (GlDrawElements n off) = True"
| "is_draw_call _ = False"

text \<open>A scissor call whose four arguments are not negative; any other call passes.\<close>

fun scissor_nonneg :: "api_call \<Rightarrow> bool" where
  "scissor_nonneg (GlScissor x y w h) = (0 \<le> x \<and> 0 \<le> y \<and> 0 \<le> w \<and> 0 \<le> h)"
| "scissor_nonneg _ = True"

text \<open>A scissor call, whatever its arguments.\<close>

fun is_scissor_call :: "api_call \<Rightarrow> bool" where
  "is_scissor_call (GlScissor x y w h) = True"
| "is_scissor_call _ = False"

text \<open>
  A 1080 by 1920 frame with one draw list holding the two commands above, the second at
  index offset 6.
\<close>

definition clip_frame :: draw_data where
  "clip_frame =
     \<lparr>DrawDisplaySize = (1080, 1920),
      CmdLists = [\<lparr>VtxBuffer_Size = 8, IdxBuffer_Size = 12,
                   CmdBuffer = [inverted_clip_cmd, offscreen_clip_cmd]\<rparr>]\<rparr>"

section \<open>Auxiliary facts about the steps\<close>

lemmas step_defs = issue_def log_print_def when_do_def fail_with_def Let_def

lemmas action_defs = AMOTION_EVENT_ACTION_DOWN_def AMOTION_EVENT_ACTION_UP_def
  AMOTION_EVENT_ACTION_MOVE_def AMOTION_EVENT_ACTION_CANCEL_def
  AMOTION_EVENT_ACTION_POINTER_DOWN_def AMOTION_EVENT_ACTION_POINTER_UP_def
  AMOTION_EVENT_ACTION_MASK_def AMOTION_EVENT_ACTION_POINTER_INDEX_MASK_def
  AMOTION_EVENT_ACTION_POINTER_INDEX_SHIFT_def AINPUT_EVENT_TYPE_MOTION_def
  AINPUT_EVENT_TYPE_KEY_def

lemmas init_defs = ImGui_ImplAndroid_Init_def init_egl_def init_finish_def
  CreateDeviceObjects_def CreateFontsTexture_def CheckShader_def CheckProgram_def

lemma ready_fields:
  "g_Initialized ready_state" "g_EglDisplay ready_state = 1" "g_EglSurface ready_state = 2"
  "g_EglContext ready_state = 3" "g_Window ready_state = 1"
  "MousePos (gui ready_state) = (- 1, - 1)" "lastWidth ready_state = 0" "lastHeight ready_state = 0"
  "g_Time ready_state = 0" "g_VboHandle ready_state = 1" "g_ElementsHandle ready_state = 2"
  "g_VertHandle ready_state = 1" "g_FragHandle ready_state = 2" "g_ShaderHandle ready_state = 3"
  "g_FontTexture ready_state = 1"
  by (simp_all add: ready_state_def init_defs good_env_def initial_state_def initial_gui_def step_defs)

lemma ready_trace:
  "trace ready_state =
     [ANativeWindow_acquire 1, ANativeWindow_release 1, EglGetDisplay, EglInitialize 1,
      EglChooseConfig 1, EglCreateWindowSurface 1 1, EglCreateContext 1, EglMakeCurrent 1 2 2 3,
      GlCreateShader GL_VERTEX_SHADER, GlShaderSource 1, GlCompileShader 1,
      GlCreateShader GL_FRAGMENT_SHADER, GlShaderSource 2, GlCompileShader 2, GlCreateProgram,
      GlAttachShader 3 1, GlAttachShader 3 2, GlLinkProgram 3, GlGenBuffers, GlGenBuffers,
      GlGenTextures, GlBindTexture 1, GlTexParameteri, GlTexParameteri, GlTexImage2D 512 64,
      GlBindTexture 0]"
  by (simp add: ready_state_def init_defs good_env_def initial_state_def initial_gl_def step_defs)

lemma issue_fields [simp]:
  "g_EglDisplay (issue c s) = g_EglDisplay s" "g_EglSurface (issue c s) = g_EglSurface s"
  "g_EglContext (issue c s) = g_EglContext s" "g_Window (issue c s) = g_Window s"
  "g_Initialized (issue c s) = g_Initialized s" "g_FontTexture (issue c s) = g_FontTexture s"
  "g_ShaderHandle (issue c s) = g_ShaderHandle s" "g_VertHandle (issue c s) = g_VertHandle s"
  "g_FragHandle (issue c s) = g_FragHandle s" "g_VboHandle (issue c s) = g_VboHandle s"
  "g_ElementsHandle (issue c s) = g_ElementsHandle s"
  "g_AttribLocationTex (issue c s) = g_AttribLocationTex s"
  "g_AttribLocationProjMtx (issue c s) = g_AttribLocationProjMtx s"
  "g_AttribLocationVtxPos (issue c s) = g_AttribLocationVtxPos s"
  "g_AttribLocationVtxUV (issue c s) = g_AttribLocationVtxUV s"
  "g_AttribLocationVtxColor (issue c s) = g_AttribLocationVtxColor s"
  "lastWidth (issue c s) = lastWidth s" "lastHeight (issue c s) = lastHeight s"
  "displayScale (issue c s) = displayScale s" "g_Time (issue c s) = g_Time s"
  "gui (issue c s) = gui s" "logs (issue c s) = logs s"
  "gl (issue c s) = gl_apply c (gl s)" "trace (issue c s) = trace s @ [c]"
  by (simp_all add: issue_def)

lemma log_print_fields [simp]:
  "g_EglDisplay (log_print l f a s) = g_EglDisplay s" "g_EglSurface (log_print l f a s) = g_EglSurface s"
  "g_EglContext (log_print l f a s) = g_EglContext s" "g_Window (log_print l f a s) = g_Window s"
  "g_Initialized (log_print l f a s) = g_Initialized s" "g_FontTexture (log_print l f a s) = g_FontTexture s"
  "g_ShaderHandle (log_print l f a s) = g_ShaderHandle s" "g_VertHandle (log_print l f a s) = g_VertHandle s"
  "g_FragHandle (log_print l f a s) = g_FragHandle s" "g_VboHandle (log_print l f a s) = g_VboHandle s"
  "g_ElementsHandle (log_print l f a s) = g_ElementsHandle s"
  "lastWidth (log_print l f a s) = lastWidth s" "lastHeight (log_print l f a s) = lastHeight s"
  "displayScale (log_print l f a s) = displayScale s" "g_Time (log_print l f a s) = g_Time s"
  "gui (log_print l f a s) = gui s" "gl (log_print l f a s) = gl s"
  "trace (log_print l f a s) = trace s" "logs (log_print l f a s) = logs s @ [(l, f, a)]"
  by (simp_all add: log_print_def)

lemma when_do_issue_fields [simp]:
  "g_EglDisplay (when_do b (issue c) s) = g_EglDisplay s"
  "g_EglSurface (when_do b (issue c) s) = g_EglSurface s"
  "g_EglContext (when_do b (issue c) s) = g_EglContext s"
  "g_Window (when_do b (issue c) s) = g_Window s"
  "g_Initialized (when_do b (issue c) s) = g_Initialized s"
  "g_FontTexture (when_do b (issue c) s) = g_FontTexture s"
  "g_ShaderHandle (when_do b (issue c) s) = g_ShaderHandle s"
  "g_VertHandle (when_do b (issue c) s) = g_VertHandle s"
  "g_FragHandle (when_do b (issue c) s) = g_FragHandle s"
  "g_VboHandle (when_do b (issue c) s) = g_VboHandle s"
  "g_ElementsHandle (when_do b (issue c) s) = g_ElementsHandle s"
  "g_Time (when_do b (issue c) s) = g_Time s"
  "gui (when_do b (issue c) s) = gui s"
  "logs (when_do b (issue c) s) = logs s"
  by (simp_all add: when_do_def)

lemma when_do_False [simp]: "when_do False f s = s"
  by (simp add: when_do_def)

lemma when_do_True [simp]: "when_do True f s = f s"
  by (simp add: when_do_def)

section \<open>Scale tiers\<close>

lemma NewFrame_displayScale:
  assumes "g_Initialized s" "egl_make_current_ok e"
    "lastWidth s \<noteq> window_width e (g_Window s) \<or> lastHeight s \<noteq> window_height e (g_Window s)"
  shows "displayScale (ImGui_ImplAndroid_NewFrame e s)
           = scale_for (window_width e (g_Window s)) (window_height e (g_Window s))"
  using assms
  by (auto simp add: ImGui_ImplAndroid_NewFrame_def CreateFontsTexture_def step_defs split: prod.splits)

text \<open>
  C7 (as amended). The scale chosen on a dimension change is a function of the larger of
  width and height alone: 2 above 1080, 3/2 above 720 up to 1080, 1 up to 720. So width
  1200 gives 2 for every height, width 800 gives 3/2 for heights up to 1080, width 400
  gives 1 for heights up to 720, and the threshold values 1080 and 720 themselves belong
  to the tier below (the lower bound of a tier is exclusive). After a frame on which the
  window size differs from the last one seen, \<open>displayScale\<close> is that value.
\<close>

theorem scale_for_tiers:
  "scale_for w h = (if 1080 < max w h then 2 else if 720 < max w h then 3 / 2 else 1)
   \<and> scale_for 1200 h = 2
   \<and> (h \<le> 1080 \<longrightarrow> scale_for 800 h = 3 / 2)
   \<and> (h \<le> 720 \<longrightarrow> scale_for 400 h = 1)
   \<and> (max w h = 1080 \<longrightarrow> scale_for w h = 3 / 2)
   \<and> (max w h = 720 \<longrightarrow> scale_for w h = 1)
   \<and> (g_Initialized s \<and> egl_make_current_ok e
        \<and> (lastWidth s \<noteq> window_width e (g_Window s) \<or> lastHeight s \<noteq> window_height e (g_Window s))
      \<longrightarrow> displayScale (ImGui_ImplAndroid_NewFrame e s)
            = scale_for (window_width e (g_Window s)) (window_height e (g_Window s)))"
  using NewFrame_displayScale [of s e]
  by (auto simp add: scale_for_def max_def)

text \<open>
  The theorem at 720 by 720 and at 1080 by 1080, and on the first frame after
  \<^verbatim>\<open>init\<close> on the 1080 by 1920 window.
\<close>

theorem scale_for_tiers_witness:
  "scale_for 800 720 = 3 / 2 \<and> scale_for 400 720 = 1 \<and> scale_for 720 720 = 1
   \<and> scale_for 800 1080 = 3 / 2 \<and> scale_for 1080 1080 = 3 / 2
   \<and> displayScale (ImGui_ImplAndroid_NewFrame good_env ready_state) = scale_for 1080 1920"
proof -
  have hyp: "g_Initialized ready_state \<and> egl_make_current_ok good_env
      \<and> (lastWidth ready_state \<noteq> window_width good_env (g_Window ready_state)
         \<or> lastHeight ready_state \<noteq> window_height good_env (g_Window ready_state))"
    by (simp add: ready_fields good_env_def)
  have size: "window_width good_env (g_Window ready_state) = 1080"
    "window_height good_env (g_Window ready_state) = 1920"
    by (simp_all add: good_env_def)
  have "displayScale (ImGui_ImplAndroid_NewFrame good_env ready_state)
          = scale_for (window_width good_env (g_Window ready_state))
              (window_height good_env (g_Window ready_state))"
    using scale_for_tiers [of 1080 1080 ready_state good_env] hyp by blast
  then show ?thesis
    using scale_for_tiers [of 720 720 ready_state good_env]
      scale_for_tiers [of 1080 1080 ready_state good_env]
    by (simp add: size)
qed

text \<open>
  The claim as stated fails: at 1080 by 1080 the scale is not that of the large tier,
  and at width 800 with height 1920 it is not that of the medium tier.
\<close>

theorem scale_for_counterexample:
  "scale_for 1080 1080 \<noteq> 2 \<and> scale_for 800 1920 \<noteq> 3 / 2"
  by (simp add: scale_for_def)

section \<open>Pointer events\<close>

lemma HandleInputEvent_Initialized:
  "g_Initialized (snd (ImGui_ImplAndroid_HandleInputEvent ev s)) = g_Initialized s"
  by (simp add: ImGui_ImplAndroid_HandleInputEvent_def step_defs)

text \<open>
  C9 (as amended). While the backend is initialised, a pointer-down motion event (action
  down or pointer-down) with its pointer at (x, y) sets the tracked position to (x, y) and
  the primary button to true; a following pointer-up, secondary pointer-up or cancel
  motion event sets the primary button to false and leaves the position where it was.
\<close>

theorem pointer_down_then_up:
  assumes "g_Initialized s"
    and "ev_type down = AINPUT_EVENT_TYPE_MOTION"
    and "actionMasked down = AMOTION_EVENT_ACTION_DOWN \<or> actionMasked down = AMOTION_EVENT_ACTION_POINTER_DOWN"
    and "ev_type up = AINPUT_EVENT_TYPE_MOTION"
    and "actionMasked up = AMOTION_EVENT_ACTION_UP \<or> actionMasked up = AMOTION_EVENT_ACTION_POINTER_UP
         \<or> actionMasked up = AMOTION_EVENT_ACTION_CANCEL"
    and "s1 = snd (ImGui_ImplAndroid_HandleInputEvent down s)"
    and "s2 = snd (ImGui_ImplAndroid_HandleInputEvent up s1)"
  shows "MousePos (gui s1) = (ev_x down (pointerIndex down), ev_y down (pointerIndex down))
         \<and> MouseDown0 (gui s1)
         \<and> \<not> MouseDown0 (gui s2)
         \<and> MousePos (gui s2) = MousePos (gui s1)"
proof -
  have i1: "g_Initialized s1"
    using assms(1,6) by (simp add: HandleInputEvent_Initialized)
  have d: "gui s1 = (gui s)\<lparr>MouseDown0 := True,
             MousePos := (ev_x down (pointerIndex down), ev_y down (pointerIndex down))\<rparr>"
    using assms(1,2,3,6)
    by (auto simp add: ImGui_ImplAndroid_HandleInputEvent_def process_touch_def step_defs)
  have u: "gui s2 = (gui s1)\<lparr>MouseDown0 := False\<rparr>"
    using i1 assms(4,5,7)
    by (auto simp add: ImGui_ImplAndroid_HandleInputEvent_def process_touch_def step_defs action_defs)
  show ?thesis by (simp add: d u)
qed

text \<open>The theorem on a pointer-down at (50, 60) followed by a pointer-up, after \<^verbatim>\<open>init\<close>.\<close>

theorem pointer_down_then_up_witness:
  "MousePos (gui (snd (ImGui_ImplAndroid_HandleInputEvent pointer_down_50_60 ready_state))) = (50, 60)
   \<and> MouseDown0 (gui (snd (ImGui_ImplAndroid_HandleInputEvent pointer_down_50_60 ready_state)))
   \<and> \<not> MouseDown0 (gui (snd (ImGui_ImplAndroid_HandleInputEvent pointer_up_70_80
          (snd (ImGui_ImplAndroid_HandleInputEvent pointer_down_50_60 ready_state)))))
   \<and> MousePos (gui (snd (ImGui_ImplAndroid_HandleInputEvent pointer_up_70_80
          (snd (ImGui_ImplAndroid_HandleInputEvent pointer_down_50_60 ready_state))))) = (50, 60)"
proof -
  have a: "g_Initialized ready_state" by (rule ready_fields(1))
  have b: "ev_type pointer_down_50_60 = AINPUT_EVENT_TYPE_MOTION"
    by (simp add: pointer_down_50_60_def)
  have c: "actionMasked pointer_down_50_60 = AMOTION_EVENT_ACTION_DOWN
           \<or> actionMasked pointer_down_50_60 = AMOTION_EVENT_ACTION_POINTER_DOWN"
    by (simp add: pointer_down_50_60_def actionMasked_def action_defs)
  have d: "ev_type pointer_up_70_80 = AINPUT_EVENT_TYPE_MOTION"
    by (simp add: pointer_up_70_80_def)
  have e: "actionMasked pointer_up_70_80 = AMOTION_EVENT_ACTION_UP
           \<or> actionMasked pointer_up_70_80 = AMOTION_EVENT_ACTION_POINTER_UP
           \<or> actionMasked pointer_up_70_80 = AMOTION_EVENT_ACTION_CANCEL"
    by (simp add: pointer_up_70_80_def actionMasked_def action_defs)
  show ?thesis
    using pointer_down_then_up [OF a b c d e refl refl]
    by (simp add: pointer_down_50_60_def)
qed

text \<open>
  Without the condition the claim fails: before \<^verbatim>\<open>init\<close> the same pointer-down event
  changes neither the position nor the button.
\<close>

theorem pointer_down_uninitialized_counterexample:
  "\<not> g_Initialized initial_state
   \<and> MousePos (gui (snd (ImGui_ImplAndroid_HandleInputEvent pointer_down_50_60 initial_state))) \<noteq> (50, 60)
   \<and> \<not> MouseDown0 (gui (snd (ImGui_ImplAndroid_HandleInputEvent pointer_down_50_60 initial_state)))"
  by (simp add: ImGui_ImplAndroid_HandleInputEvent_def initial_state_def initial_gui_def)

text \<open>
  C10. \<^verbatim>\<open>ImGui_ImplAndroid_HandleInputEvent\<close> returns true exactly when the backend is
  initialised and the event is a motion event. An event that is not a motion event (a key
  event in particular), or any event before \<^verbatim>\<open>init\<close>, returns false and changes
  nothing; a motion event of an action kind outside down, pointer-down, move, up,
  pointer-up and cancel returns true and leaves the GUI library's input state as it was.
\<close>

theorem handle_input_event_result:
  "fst (ImGui_ImplAndroid_HandleInputEvent ev s)
     = (g_Initialized s \<and> ev_type ev = AINPUT_EVENT_TYPE_MOTION)
   \<and> (\<not> g_Initialized s \<or> ev_type ev \<noteq> AINPUT_EVENT_TYPE_MOTION
        \<longrightarrow> snd (ImGui_ImplAndroid_HandleInputEvent ev s) = s)
   \<and> (ev_type ev = AINPUT_EVENT_TYPE_KEY \<longrightarrow> \<not> fst (ImGui_ImplAndroid_HandleInputEvent ev s))
   \<and> (g_Initialized s \<and> ev_type ev = AINPUT_EVENT_TYPE_MOTION
        \<and> actionMasked ev \<notin> {AMOTION_EVENT_ACTION_DOWN, AMOTION_EVENT_ACTION_POINTER_DOWN,
             AMOTION_EVENT_ACTION_MOVE, AMOTION_EVENT_ACTION_UP, AMOTION_EVENT_ACTION_POINTER_UP,
             AMOTION_EVENT_ACTION_CANCEL}
        \<longrightarrow> gui (snd (ImGui_ImplAndroid_HandleInputEvent ev s)) = gui s)"
  by (auto simp add: ImGui_ImplAndroid_HandleInputEvent_def process_touch_def step_defs
      AINPUT_EVENT_TYPE_MOTION_def AINPUT_EVENT_TYPE_KEY_def)

text \<open>
  The theorem on a key event and on a hover-move event after \<^verbatim>\<open>init\<close>, and on a
  pointer-down event before it.
\<close>

theorem handle_input_event_result_witness:
  "\<not> fst (ImGui_ImplAndroid_HandleInputEvent key_event ready_state)
   \<and> snd (ImGui_ImplAndroid_HandleInputEvent key_event ready_state) = ready_state
   \<and> fst (ImGui_ImplAndroid_HandleInputEvent hover_move_event ready_state)
   \<and> gui (snd (ImGui_ImplAndroid_HandleInputEvent hover_move_event ready_state)) = gui ready_state
   \<and> \<not> fst (ImGui_ImplAndroid_HandleInputEvent pointer_down_50_60 initial_state)
   \<and> snd (ImGui_ImplAndroid_HandleInputEvent pointer_down_50_60 initial_state) = initial_state"
proof -
  have k: "ev_type key_event = AINPUT_EVENT_TYPE_KEY" "ev_type key_event \<noteq> AINPUT_EVENT_TYPE_MOTION"
    by (simp_all add: key_event_def action_defs)
  have i: "\<not> g_Initialized initial_state"
    by (simp add: initial_state_def)
  show ?thesis
    using handle_input_event_result [of key_event ready_state]
      handle_input_event_result [of hover_move_event ready_state]
      handle_input_event_result [of pointer_down_50_60 initial_state]
    by (simp add: k i ready_fields action_defs actionMasked_def hover_move_event_def
        pointer_down_50_60_def)
qed

section \<open>Shutdown\<close>

lemma shutdown_gl_handles:
  "g_VboHandle (shutdown_gl s) = 0" "g_ElementsHandle (shutdown_gl s) = 0"
  "g_VertHandle (shutdown_gl s) = 0" "g_FragHandle (shutdown_gl s) = 0"
  "g_ShaderHandle (shutdown_gl s) = 0" "g_FontTexture (shutdown_gl s) = 0"
  "g_Time (shutdown_gl s) = g_Time s"
  by (cases "g_FontTexture s = 0"; simp add: shutdown_gl_def Let_def)+

lemma shutdown_egl_keeps:
  "g_VboHandle (shutdown_egl s) = g_VboHandle s" "g_ElementsHandle (shutdown_egl s) = g_ElementsHandle s"
  "g_VertHandle (shutdown_egl s) = g_VertHandle s" "g_FragHandle (shutdown_egl s) = g_FragHandle s"
  "g_ShaderHandle (shutdown_egl s) = g_ShaderHandle s" "g_FontTexture (shutdown_egl s) = g_FontTexture s"
  "g_Time (shutdown_egl s) = g_Time s"
  by (cases "g_EglDisplay s = 0"; simp add: shutdown_egl_def Let_def)+

lemma Shutdown_handles:
  "g_EglDisplay (ImGui_ImplAndroid_Shutdown s) = 0"
  "g_EglContext (ImGui_ImplAndroid_Shutdown s) = 0"
  "g_EglSurface (ImGui_ImplAndroid_Shutdown s) = 0"
  "g_Window (ImGui_ImplAndroid_Shutdown s) = 0"
  "g_FontTexture (ImGui_ImplAndroid_Shutdown s) = 0"
  "g_VertHandle (ImGui_ImplAndroid_Shutdown s) = 0"
  "g_FragHandle (ImGui_ImplAndroid_Shutdown s) = 0"
  "g_ShaderHandle (ImGui_ImplAndroid_Shutdown s) = 0"
  "g_VboHandle (ImGui_ImplAndroid_Shutdown s) = 0"
  "g_ElementsHandle (ImGui_ImplAndroid_Shutdown s) = 0"
  "\<not> g_Initialized (ImGui_ImplAndroid_Shutdown s)"
  by (simp_all add: ImGui_ImplAndroid_Shutdown_def Let_def shutdown_gl_handles shutdown_egl_keeps cong: let_weak_cong)

lemma shutdown_gl_unbound:
  assumes "g_FontTexture t = 0" "g_VertHandle t = 0" "g_FragHandle t = 0" "g_ShaderHandle t = 0"
    "g_VboHandle t = 0" "g_ElementsHandle t = 0"
  shows "shutdown_gl t = t"
  using assms by (cases t) (simp add: shutdown_gl_def Let_def cong: let_weak_cong)

lemma shutdown_egl_unbound: "g_EglDisplay t = 0 \<Longrightarrow> shutdown_egl t = t"
  by (simp add: shutdown_egl_def)

lemma Shutdown_unbound:
  assumes "g_EglDisplay t = 0" "g_EglContext t = 0" "g_EglSurface t = 0" "g_Window t = 0"
    "g_FontTexture t = 0" "g_VertHandle t = 0" "g_FragHandle t = 0" "g_ShaderHandle t = 0"
    "g_VboHandle t = 0" "g_ElementsHandle t = 0" "\<not> g_Initialized t"
  shows "ImGui_ImplAndroid_Shutdown t =
           t\<lparr>logs := logs t @ [(ANDROID_LOG_INFO, ''ImGui_ImplAndroid_Shutdown called'', []),
                                (ANDROID_LOG_INFO, ''ImGui_ImplAndroid_Shutdown completed'', [])]\<rparr>"
proof -
  let ?t1 = "log_print ANDROID_LOG_INFO ''ImGui_ImplAndroid_Shutdown called'' [] t"
  have 1: "shutdown_gl ?t1 = ?t1"
    by (rule shutdown_gl_unbound) (simp_all add: assms)
  have 2: "shutdown_egl ?t1 = ?t1"
    by (rule shutdown_egl_unbound) (simp add: assms)
  have 3: "ImGui_ImplAndroid_Shutdown t =
      log_print ANDROID_LOG_INFO ''ImGui_ImplAndroid_Shutdown completed'' []
        (?t1\<lparr>g_EglDisplay := 0, g_EglContext := 0, g_EglSurface := 0, g_Window := 0,
             g_Initialized := False\<rparr>)"
    by (simp add: ImGui_ImplAndroid_Shutdown_def Let_def 1 2 cong: let_weak_cong)
  show ?thesis
    unfolding 3 using assms by (cases t) (simp add: log_print_def)
qed

text \<open>
  C4. After \<^verbatim>\<open>ImGui_ImplAndroid_Shutdown\<close> the display, context, surface and window
  handles, the font texture, both shader stages, the program and both buffers are zero and
  the backend is not initialised. A second call issues no EGL or GL call at all (the
  trace stays as it is) and changes nothing in the state: its only effect is the two
  informational log lines that every call writes.
\<close>

theorem shutdown_idempotent:
  "g_EglDisplay (ImGui_ImplAndroid_Shutdown s) = 0
   \<and> g_EglContext (ImGui_ImplAndroid_Shutdown s) = 0
   \<and> g_EglSurface (ImGui_ImplAndroid_Shutdown s) = 0
   \<and> g_Window (ImGui_ImplAndroid_Shutdown s) = 0
   \<and> g_FontTexture (ImGui_ImplAndroid_Shutdown s) = 0
   \<and> g_VertHandle (ImGui_ImplAndroid_Shutdown s) = 0
   \<and> g_FragHandle (ImGui_ImplAndroid_Shutdown s) = 0
   \<and> g_ShaderHandle (ImGui_ImplAndroid_Shutdown s) = 0
   \<and> g_VboHandle (ImGui_ImplAndroid_Shutdown s) = 0
   \<and> g_ElementsHandle (ImGui_ImplAndroid_Shutdown s) = 0
   \<and> \<not> g_Initialized (ImGui_ImplAndroid_Shutdown s)
   \<and> trace (ImGui_ImplAndroid_Shutdown (ImGui_ImplAndroid_Shutdown s))
       = trace (ImGui_ImplAndroid_Shutdown s)
   \<and> ImGui_ImplAndroid_Shutdown (ImGui_ImplAndroid_Shutdown s)
       = (ImGui_ImplAndroid_Shutdown s)
           \<lparr>logs := logs (ImGui_ImplAndroid_Shutdown s)
              @ [(ANDROID_LOG_INFO, ''ImGui_ImplAndroid_Shutdown called'', []),
                 (ANDROID_LOG_INFO, ''ImGui_ImplAndroid_Shutdown completed'', [])]\<rparr>"
proof -
  let ?t = "ImGui_ImplAndroid_Shutdown s"
  have again: "ImGui_ImplAndroid_Shutdown ?t =
      ?t\<lparr>logs := logs ?t @ [(ANDROID_LOG_INFO, ''ImGui_ImplAndroid_Shutdown called'', []),
                             (ANDROID_LOG_INFO, ''ImGui_ImplAndroid_Shutdown completed'', [])]\<rparr>"
    by (rule Shutdown_unbound) (rule Shutdown_handles)+
  have "trace (ImGui_ImplAndroid_Shutdown ?t) = trace ?t"
    by (subst again) simp
  with again show ?thesis
    by (simp only: Shutdown_handles simp_thms)
qed

text \<open>
  The theorem after \<^verbatim>\<open>init\<close>: the first call releases both buffers, both shader
  stages, the program, the font texture, the context and the surface and ends the display
  connection; the second releases nothing.
\<close>

theorem shutdown_idempotent_witness:
  "trace (ImGui_ImplAndroid_Shutdown ready_state)
     = trace ready_state @
       [GlDeleteBuffers 1, GlDeleteBuffers 2, GlDetachShader 3 1, GlDeleteShader 1,
        GlDetachShader 3 2, GlDeleteShader 2, GlDeleteProgram 3, GlDeleteTextures 1,
        EglMakeCurrent 1 0 0 0, EglDestroyContext 1 3, EglDestroySurface 1 2, EglTerminate 1]
   \<and> trace (ImGui_ImplAndroid_Shutdown (ImGui_ImplAndroid_Shutdown ready_state))
     = trace (ImGui_ImplAndroid_Shutdown ready_state)
   \<and> g_EglDisplay (ImGui_ImplAndroid_Shutdown ready_state) = 0"
proof -
  have "trace (ImGui_ImplAndroid_Shutdown ready_state)
     = trace ready_state @
       [GlDeleteBuffers 1, GlDeleteBuffers 2, GlDetachShader 3 1, GlDeleteShader 1,
        GlDetachShader 3 2, GlDeleteShader 2, GlDeleteProgram 3, GlDeleteTextures 1,
        EglMakeCurrent 1 0 0 0, EglDestroyContext 1 3, EglDestroySurface 1 2, EglTerminate 1]"
    by (simp add: ImGui_ImplAndroid_Shutdown_def shutdown_gl_def shutdown_egl_def Let_def
        ready_fields cong: let_weak_cong)
  then show ?thesis
    using shutdown_idempotent [of ready_state] by simp
qed

section \<open>Building the pipeline\<close>

lemma snd_CheckShader:
  "snd (CheckShader e h d s) =
     s\<lparr>logs := logs s @
        (if \<not> compile_status e h \<and> 1 < shader_log_length e h
         then [(ANDROID_LOG_ERROR, ''ERROR: %s shader failed to compile: %s'',
                [LStr d, LStr (take (nat (shader_log_length e h - 1)) (shader_info_log e h))])]
         else [])\<rparr>"
  by (simp add: CheckShader_def Let_def when_do_def log_print_def cong: let_weak_cong)

lemma snd_CheckProgram:
  "snd (CheckProgram e h d s) =
     s\<lparr>logs := logs s @
        (if \<not> link_status e h \<and> 1 < program_log_length e h
         then [(ANDROID_LOG_ERROR, ''ERROR: %s program failed to link: %s'',
                [LStr d, LStr (take (nat (program_log_length e h - 1)) (program_info_log e h))])]
         else [])\<rparr>"
  by (simp add: CheckProgram_def Let_def when_do_def log_print_def cong: let_weak_cong)

lemma CreateDeviceObjects_frame:
  "(\<lambda>t. (fst t, g_EglDisplay (snd t), g_EglSurface (snd t), g_EglContext (snd t), g_Window (snd t),
          g_Initialized (snd t), g_Time (snd t), gui (snd t), logs (snd t)))
     (CreateDeviceObjects e s)
   = (True, g_EglDisplay s, g_EglSurface s, g_EglContext s, g_Window s, g_Initialized s, g_Time s, gui s,
      logs (snd (CheckProgram e (new_program e) ''shader program''
        (snd (CheckShader e (new_shader e GL_FRAGMENT_SHADER) ''fragment shader''
           (snd (CheckShader e (new_shader e GL_VERTEX_SHADER) ''vertex shader'' s)))))))"
  by (simp add: CreateDeviceObjects_def Let_def snd_CheckShader snd_CheckProgram cong: let_weak_cong)

lemma fst_CreateDeviceObjects: "fst (CreateDeviceObjects e s)"
  using CreateDeviceObjects_frame [of e s] by simp

lemma fst_CreateFontsTexture: "fst (CreateFontsTexture e s)"
  by (simp add: CreateFontsTexture_def Let_def split: prod.splits cong: let_weak_cong)

lemma CreateDeviceObjects_keeps:
  "g_EglDisplay (snd (CreateDeviceObjects e s)) = g_EglDisplay s"
  "g_EglSurface (snd (CreateDeviceObjects e s)) = g_EglSurface s"
  "g_EglContext (snd (CreateDeviceObjects e s)) = g_EglContext s"
  "g_Window (snd (CreateDeviceObjects e s)) = g_Window s"
  "g_Initialized (snd (CreateDeviceObjects e s)) = g_Initialized s"
  "g_Time (snd (CreateDeviceObjects e s)) = g_Time s"
  "gui (snd (CreateDeviceObjects e s)) = gui s"
  using CreateDeviceObjects_frame [of e s] by simp_all

lemma CreateDeviceObjects_logs:
  "logs (snd (CreateDeviceObjects e s))
     = logs (snd (CheckProgram e (new_program e) ''shader program''
          (snd (CheckShader e (new_shader e GL_FRAGMENT_SHADER) ''fragment shader''
             (snd (CheckShader e (new_shader e GL_VERTEX_SHADER) ''vertex shader'' s))))))"
  using CreateDeviceObjects_frame [of e s] by simp

lemma CreateFontsTexture_keeps:
  "g_EglDisplay (snd (CreateFontsTexture e s)) = g_EglDisplay s"
  "g_EglSurface (snd (CreateFontsTexture e s)) = g_EglSurface s"
  "g_EglContext (snd (CreateFontsTexture e s)) = g_EglContext s"
  "g_Window (snd (CreateFontsTexture e s)) = g_Window s"
  "g_Initialized (snd (CreateFontsTexture e s)) = g_Initialized s"
  "g_Time (snd (CreateFontsTexture e s)) = g_Time s"
  "DeltaTime (gui (snd (CreateFontsTexture e s))) = DeltaTime (gui s)"
  "displayScale (snd (CreateFontsTexture e s)) = displayScale s"
  by (simp_all add: CreateFontsTexture_def Let_def split: prod.splits cong: let_weak_cong)

text \<open>
  C3 (as amended). \<^verbatim>\<open>CreateDeviceObjects\<close> returns success always, whether or not the
  shaders compile and the program links: it drops what \<^verbatim>\<open>CheckShader\<close> and
  \<^verbatim>\<open>CheckProgram\<close> return. Those two return failure exactly when the compile or link
  status is false, and write one error line with the implementation's information log
  when, in addition, the reported log length exceeds one (no line otherwise). The log
  lines of \<^verbatim>\<open>CreateDeviceObjects\<close> are those of its three checks, in order; every
  call returns a value (nothing aborts).
\<close>

theorem CreateDeviceObjects_always_succeeds:
  "fst (CreateDeviceObjects e s)
   \<and> fst (CheckShader e h d s) = compile_status e h
   \<and> fst (CheckProgram e h d s) = link_status e h
   \<and> logs (snd (CheckShader e h d s))
       = logs s @ (if \<not> compile_status e h \<and> 1 < shader_log_length e h
                   then [(ANDROID_LOG_ERROR, ''ERROR: %s shader failed to compile: %s'',
                          [LStr d, LStr (take (nat (shader_log_length e h - 1)) (shader_info_log e h))])]
                   else [])
   \<and> logs (snd (CheckProgram e h d s))
       = logs s @ (if \<not> link_status e h \<and> 1 < program_log_length e h
                   then [(ANDROID_LOG_ERROR, ''ERROR: %s program failed to link: %s'',
                          [LStr d, LStr (take (nat (program_log_length e h - 1)) (program_info_log e h))])]
                   else [])
   \<and> logs (snd (CreateDeviceObjects e s))
       = logs (snd (CheckProgram e (new_program e) ''shader program''
            (snd (CheckShader e (new_shader e GL_FRAGMENT_SHADER) ''fragment shader''
               (snd (CheckShader e (new_shader e GL_VERTEX_SHADER) ''vertex shader'' s))))))"
  by (simp add: fst_CreateDeviceObjects CreateDeviceObjects_logs snd_CheckShader snd_CheckProgram)
    (simp add: CheckShader_def CheckProgram_def Let_def cong: let_weak_cong)

text \<open>
  The theorem on a platform whose vertex shader does not compile and reports the log
  ``bad'' (log length 4): success is returned and one error line is written.
\<close>

theorem CreateDeviceObjects_always_succeeds_witness:
  "fst (CreateDeviceObjects
          (good_env\<lparr>compile_status := (\<lambda>h. h \<noteq> 1), shader_log_length := (\<lambda>_. 4),
                    shader_info_log := (\<lambda>_. ''bad'')\<rparr>) initial_state)
   \<and> \<not> fst (CheckShader
          (good_env\<lparr>compile_status := (\<lambda>h. h \<noteq> 1), shader_log_length := (\<lambda>_. 4),
                    shader_info_log := (\<lambda>_. ''bad'')\<rparr>) 1 ''vertex shader'' initial_state)
   \<and> logs (snd (CreateDeviceObjects
          (good_env\<lparr>compile_status := (\<lambda>h. h \<noteq> 1), shader_log_length := (\<lambda>_. 4),
                    shader_info_log := (\<lambda>_. ''bad'')\<rparr>) initial_state))
       = [(ANDROID_LOG_ERROR, ''ERROR: %s shader failed to compile: %s'',
           [LStr ''vertex shader'', LStr ''bad''])]"
  using CreateDeviceObjects_always_succeeds
    [of "good_env\<lparr>compile_status := (\<lambda>h. h \<noteq> 1), shader_log_length := (\<lambda>_. 4),
                   shader_info_log := (\<lambda>_. ''bad'')\<rparr>" initial_state 1 "''vertex shader''"]
  by (simp add: snd_CheckShader snd_CheckProgram good_env_def initial_state_def)

text \<open>
  The claim as stated fails: on a platform where no shader compiles,
  \<^verbatim>\<open>CreateDeviceObjects\<close> still returns success.
\<close>

theorem CreateDeviceObjects_counterexample:
  "\<not> compile_status (good_env\<lparr>compile_status := (\<lambda>_. False)\<rparr>) 1
   \<and> fst (CreateDeviceObjects (good_env\<lparr>compile_status := (\<lambda>_. False)\<rparr>) initial_state)"
  by (simp add: fst_CreateDeviceObjects)

section \<open>Initialisation\<close>

lemma init_finish_fields:
  "fst (init_finish e w h s)"
  "g_Initialized (snd (init_finish e w h s))"
  "g_EglDisplay (snd (init_finish e w h s)) = g_EglDisplay s"
  "g_EglSurface (snd (init_finish e w h s)) = g_EglSurface s"
  "g_EglContext (snd (init_finish e w h s)) = g_EglContext s"
  "g_Time (snd (init_finish e w h s)) = g_Time s"
  by (simp_all add: init_finish_def Let_def CreateDeviceObjects_keeps CreateFontsTexture_keeps cong: let_weak_cong)

lemma fail_with_fields [simp]:
  "fst (fail_with m s) = False"
  "g_Initialized (snd (fail_with m s)) = g_Initialized s"
  "g_EglDisplay (snd (fail_with m s)) = g_EglDisplay s"
  "g_EglSurface (snd (fail_with m s)) = g_EglSurface s"
  "g_EglContext (snd (fail_with m s)) = g_EglContext s"
  "g_Time (snd (fail_with m s)) = g_Time s"
  by (simp_all add: fail_with_def)

lemma init_egl_success_iff:
  "fst (init_egl e w h s) =
     (egl_display e \<noteq> 0 \<and> egl_initialize_ok e \<and> egl_choose_config_ok e
      \<and> egl_surface e \<noteq> 0 \<and> egl_context e \<noteq> 0 \<and> egl_make_current_ok e)"
  by (simp add: init_egl_def Let_def init_finish_fields cong: let_weak_cong)

lemma init_egl_fields:
  "g_EglDisplay (snd (init_egl e w h s)) = egl_display e"
  "g_EglSurface (snd (init_egl e w h s)) =
     (if egl_display e = 0 \<or> \<not> egl_initialize_ok e \<or> \<not> egl_choose_config_ok e
      then g_EglSurface s else egl_surface e)"
  "g_EglContext (snd (init_egl e w h s)) =
     (if egl_display e = 0 \<or> \<not> egl_initialize_ok e \<or> \<not> egl_choose_config_ok e \<or> egl_surface e = 0
      then g_EglContext s else egl_context e)"
  "g_Initialized (snd (init_egl e w h s)) = (fst (init_egl e w h s) \<or> g_Initialized s)"
  "g_Time (snd (init_egl e w h s)) = g_Time s"
  by (simp_all add: init_egl_def Let_def init_finish_fields cong: let_weak_cong)

lemma Init_success_iff:
  "fst (ImGui_ImplAndroid_Init e window s) =
     (window \<noteq> 0 \<and> 0 < window_width e window \<and> 0 < window_height e window
      \<and> egl_display e \<noteq> 0 \<and> egl_initialize_ok e \<and> egl_choose_config_ok e
      \<and> egl_surface e \<noteq> 0 \<and> egl_context e \<noteq> 0 \<and> egl_make_current_ok e)"
  by (auto simp add: ImGui_ImplAndroid_Init_def Let_def init_egl_success_iff)

lemma Init_Initialized:
  "g_Initialized (snd (ImGui_ImplAndroid_Init e window s))
     = (fst (ImGui_ImplAndroid_Init e window s) \<or> g_Initialized s)"
  by (simp add: ImGui_ImplAndroid_Init_def Let_def init_egl_fields cong: let_weak_cong)

lemma Init_Time: "g_Time (snd (ImGui_ImplAndroid_Init e window s)) = g_Time s"
  by (simp add: ImGui_ImplAndroid_Init_def Let_def init_egl_fields cong: let_weak_cong)

text \<open>
  C2 (as amended). When \<^verbatim>\<open>ImGui_ImplAndroid_Init\<close> returns failure the initialised
  flag is as before, and the display, surface and context handles hold what had been
  acquired when the failing step was reached; nothing is rolled back. For a null window
  or non-positive dimensions the three handles are unchanged. Otherwise the display handle
  is the result of the display query (null if that failed); if the display query, the
  display initialisation or the configuration choice failed, surface and context are
  unchanged; otherwise the surface handle is the result of surface creation (null if that
  failed, with the context unchanged), and the context handle is the result of context
  creation (null if that failed, set if only the activation failed).
\<close>

theorem Init_failure_state:
  assumes "\<not> fst (ImGui_ImplAndroid_Init e window s)"
    and "s' = snd (ImGui_ImplAndroid_Init e window s)"
    and "early = (window = 0 \<or> window_width e window \<le> 0 \<or> window_height e window \<le> 0)"
    and "no_config = (egl_display e = 0 \<or> \<not> egl_initialize_ok e \<or> \<not> egl_choose_config_ok e)"
  shows "g_Initialized s' = g_Initialized s
    \<and> (early \<longrightarrow> g_EglDisplay s' = g_EglDisplay s \<and> g_EglSurface s' = g_EglSurface s
                  \<and> g_EglContext s' = g_EglContext s)
    \<and> (\<not> early \<longrightarrow> g_EglDisplay s' = egl_display e)
    \<and> (\<not> early \<and> no_config \<longrightarrow> g_EglSurface s' = g_EglSurface s \<and> g_EglContext s' = g_EglContext s)
    \<and> (\<not> early \<and> \<not> no_config \<longrightarrow> g_EglSurface s' = egl_surface e)
    \<and> (\<not> early \<and> \<not> no_config \<and> egl_surface e = 0 \<longrightarrow> g_EglContext s' = g_EglContext s)
    \<and> (\<not> early \<and> \<not> no_config \<and> egl_surface e \<noteq> 0 \<longrightarrow> g_EglContext s' = egl_context e)"
proof -
  have flag: "g_Initialized s' = g_Initialized s"
    using assms(1,2) by (simp add: Init_Initialized)
  show ?thesis
  proof (cases early)
    case True
    then show ?thesis
      using flag assms(2,3) by (auto simp add: ImGui_ImplAndroid_Init_def Let_def)
  next
    case False
    then have s': "s' = snd (init_egl e (window_width e window) (window_height e window)
        (log_print ANDROID_LOG_INFO ''ImGui_ImplAndroid_Init with window: %p, dimensions: %dx%d''
           [LPtr window, LInt (window_width e window), LInt (window_height e window)]
           (issue (ANativeWindow_release window)
              (issue (ANativeWindow_acquire window) (s\<lparr>g_Window := window\<rparr>)))))"
      using assms(2,3) by (simp add: ImGui_ImplAndroid_Init_def Let_def cong: let_weak_cong)
    show ?thesis
      using False flag assms(4) by (simp add: s' init_egl_fields)
  qed
qed

text \<open>
  The theorem where activating the context fails on the otherwise good platform: all
  three handles stay set after the failed call.
\<close>

theorem Init_failure_state_witness:
  "\<not> fst (ImGui_ImplAndroid_Init (good_env\<lparr>egl_make_current_ok := False\<rparr>) 1 initial_state)
   \<and> \<not> g_Initialized (snd (ImGui_ImplAndroid_Init (good_env\<lparr>egl_make_current_ok := False\<rparr>) 1 initial_state))
   \<and> g_EglDisplay (snd (ImGui_ImplAndroid_Init (good_env\<lparr>egl_make_current_ok := False\<rparr>) 1 initial_state)) = 1
   \<and> g_EglSurface (snd (ImGui_ImplAndroid_Init (good_env\<lparr>egl_make_current_ok := False\<rparr>) 1 initial_state)) = 2
   \<and> g_EglContext (snd (ImGui_ImplAndroid_Init (good_env\<lparr>egl_make_current_ok := False\<rparr>) 1 initial_state)) = 3"
proof -
  let ?e = "good_env\<lparr>egl_make_current_ok := False\<rparr>"
  have f: "\<not> fst (ImGui_ImplAndroid_Init ?e 1 initial_state)"
    by (simp add: Init_success_iff)
  have e: "False = ((1::nat) = 0 \<or> window_width ?e 1 \<le> 0 \<or> window_height ?e 1 \<le> 0)"
    by (simp add: good_env_def)
  have c: "False = (egl_display ?e = 0 \<or> \<not> egl_initialize_ok ?e \<or> \<not> egl_choose_config_ok ?e)"
    by (simp add: good_env_def)
  have v: "egl_display ?e = 1" "egl_surface ?e = 2" "egl_context ?e = 3"
    "\<not> g_Initialized initial_state"
    by (simp_all add: good_env_def initial_state_def)
  show ?thesis
    using Init_failure_state [OF f refl e c] f
    by (simp add: v)
qed

text \<open>
  The claim as stated fails: when the display connection is obtained and its
  initialisation fails, \<^verbatim>\<open>init\<close> returns failure and leaves the display handle set.
\<close>

theorem Init_partial_state_counterexample:
  "g_EglDisplay initial_state = 0
   \<and> \<not> fst (ImGui_ImplAndroid_Init (good_env\<lparr>egl_initialize_ok := False\<rparr>) 1 initial_state)
   \<and> g_EglDisplay (snd (ImGui_ImplAndroid_Init (good_env\<lparr>egl_initialize_ok := False\<rparr>) 1 initial_state)) = 1"
  by (simp add: init_defs good_env_def initial_state_def step_defs)

section \<open>Frame timing\<close>

lemma NewFrame_time:
  assumes "g_Initialized s" "egl_make_current_ok e"
  shows "DeltaTime (gui (ImGui_ImplAndroid_NewFrame e s))
           = (if 0 < g_Time s then imgui_time e - g_Time s else 1 / 60)"
    and "g_Time (ImGui_ImplAndroid_NewFrame e s) = imgui_time e"
  using assms
  by (simp_all add: ImGui_ImplAndroid_NewFrame_def Let_def when_do_def CreateFontsTexture_keeps
      cong: let_weak_cong)

lemma NewFrame_skipped:
  assumes "\<not> (g_Initialized s \<and> egl_make_current_ok e)"
  shows "DeltaTime (gui (ImGui_ImplAndroid_NewFrame e s)) = DeltaTime (gui s)"
    and "g_Time (ImGui_ImplAndroid_NewFrame e s) = g_Time s"
  using assms
  by (auto simp add: ImGui_ImplAndroid_NewFrame_def Let_def cong: let_weak_cong)

lemma NewFrame_Initialized:
  "g_Initialized (ImGui_ImplAndroid_NewFrame e s) = g_Initialized s"
  by (simp add: ImGui_ImplAndroid_NewFrame_def Let_def when_do_def CreateFontsTexture_keeps
      cong: let_weak_cong)

lemma Shutdown_Time: "g_Time (ImGui_ImplAndroid_Shutdown s) = g_Time s"
  by (simp add: ImGui_ImplAndroid_Shutdown_def Let_def shutdown_gl_handles shutdown_egl_keeps
      cong: let_weak_cong)

lemma env_at_fields:
  "egl_make_current_ok (env_at t)" "imgui_time (env_at t) = t"
  by (simp_all add: env_at_def good_env_def)

lemma restarted_fields:
  "fst (ImGui_ImplAndroid_Init good_env 1
          (ImGui_ImplAndroid_Shutdown (ImGui_ImplAndroid_NewFrame (env_at 5) ready_state)))"
  "g_Initialized restarted_state" "g_Time restarted_state = 5"
proof -
  show ok: "fst (ImGui_ImplAndroid_Init good_env 1
          (ImGui_ImplAndroid_Shutdown (ImGui_ImplAndroid_NewFrame (env_at 5) ready_state)))"
    by (simp add: Init_success_iff good_env_def)
  show "g_Initialized restarted_state"
    using ok by (simp add: restarted_state_def Init_Initialized)
  show "g_Time restarted_state = 5"
    by (simp add: restarted_state_def Init_Time Shutdown_Time NewFrame_time ready_fields env_at_fields)
qed

text \<open>
  C8 (as amended). A \<^verbatim>\<open>newFrame\<close> call that gets past its two early returns (backend
  initialised, context made current) reports the fixed fallback 1/60 when the stored
  timestamp is not positive, which is the case on the first such call of the process, and
  otherwise the current time minus the stored timestamp; it then stores the current time.
  A call that returns early reports nothing and stores nothing. The stored timestamp is a
  function-local static: neither \<^verbatim>\<open>shutdown\<close> nor \<^verbatim>\<open>init\<close> resets it, so the
  first frame after a later \<^verbatim>\<open>init\<close> reports the time since the last frame of the
  session before. (Times are modelled as reals; the narrowing to single precision is not.)
\<close>

theorem frame_delta:
  "(g_Initialized s \<and> egl_make_current_ok e \<longrightarrow>
      DeltaTime (gui (ImGui_ImplAndroid_NewFrame e s))
        = (if 0 < g_Time s then imgui_time e - g_Time s else 1 / 60)
      \<and> g_Time (ImGui_ImplAndroid_NewFrame e s) = imgui_time e)
   \<and> (\<not> (g_Initialized s \<and> egl_make_current_ok e) \<longrightarrow>
      DeltaTime (gui (ImGui_ImplAndroid_NewFrame e s)) = DeltaTime (gui s)
      \<and> g_Time (ImGui_ImplAndroid_NewFrame e s) = g_Time s)
   \<and> g_Time (ImGui_ImplAndroid_Shutdown s) = g_Time s
   \<and> g_Time (snd (ImGui_ImplAndroid_Init e window s)) = g_Time s
   \<and> g_Time initial_state = 0"
  using NewFrame_time [of s e] NewFrame_skipped [of s e]
  by (auto simp add: Shutdown_Time Init_Time initial_state_def)

text \<open>
  The theorem on the first two frames after the first \<^verbatim>\<open>init\<close> of the process, at
  times 5 and 9, and on a frame before \<^verbatim>\<open>init\<close>.
\<close>

theorem frame_delta_witness:
  "DeltaTime (gui (ImGui_ImplAndroid_NewFrame (env_at 5) ready_state)) = 1 / 60
   \<and> DeltaTime (gui (ImGui_ImplAndroid_NewFrame (env_at 9)
        (ImGui_ImplAndroid_NewFrame (env_at 5) ready_state))) = 9 - 5
   \<and> g_Time (ImGui_ImplAndroid_NewFrame (env_at 5) initial_state) = 0"
proof -
  let ?s1 = "ImGui_ImplAndroid_NewFrame (env_at 5) ready_state"
  have a: "g_Initialized ready_state \<and> egl_make_current_ok (env_at 5)"
    by (simp add: ready_fields env_at_fields)
  have b: "g_Initialized ?s1 \<and> egl_make_current_ok (env_at 9)"
    by (simp add: NewFrame_Initialized ready_fields env_at_fields)
  have c: "\<not> (g_Initialized initial_state \<and> egl_make_current_ok (env_at 5))"
    by (simp add: initial_state_def)
  have 1: "DeltaTime (gui ?s1) = 1 / 60" "g_Time ?s1 = 5"
    using frame_delta [of ready_state "env_at 5"] a
    by (simp_all add: ready_fields env_at_fields)
  have 2: "DeltaTime (gui (ImGui_ImplAndroid_NewFrame (env_at 9) ?s1)) = 9 - 5"
    using frame_delta [of ?s1 "env_at 9"] b
    by (simp add: 1 env_at_fields)
  have 3: "g_Time (ImGui_ImplAndroid_NewFrame (env_at 5) initial_state) = 0"
    using frame_delta [of initial_state "env_at 5"] c by simp
  show ?thesis
    using 1 2 3 by simp
qed

text \<open>
  The claim as stated fails: after one frame at time 5, \<^verbatim>\<open>shutdown\<close> and a second
  successful \<^verbatim>\<open>init\<close>, the first frame, at time 9, reports 4 and not 1/60.
\<close>

theorem frame_delta_counterexample:
  "fst (ImGui_ImplAndroid_Init good_env 1
          (ImGui_ImplAndroid_Shutdown (ImGui_ImplAndroid_NewFrame (env_at 5) ready_state)))
   \<and> DeltaTime (gui (ImGui_ImplAndroid_NewFrame (env_at 9) restarted_state)) = 4
   \<and> DeltaTime (gui (ImGui_ImplAndroid_NewFrame (env_at 9) restarted_state)) \<noteq> 1 / 60"
  using restarted_fields(1)
  by (simp add: restarted_fields(2,3) NewFrame_time env_at_fields)

section \<open>Rendering\<close>

lemma snd_backup_gl_state: "snd (backup_gl_state s) = issue (GlActiveTexture GL_TEXTURE0) s"
  by (simp add: backup_gl_state_def Let_def)

lemma fst_backup_gl_state:
  "fst (backup_gl_state s) =
     \<lparr>last_active_texture = active_texture (gl s),
      last_program = current_program (gl s),
      last_texture = texture_binding_2d (gl s) GL_TEXTURE0,
      last_array_buffer = array_buffer_binding (gl s),
      last_element_array_buffer = element_array_buffer_binding (gl s),
      last_vertex_array = vertex_array_binding (gl s),
      last_blend_src_rgb = blend_src_rgb (gl s),
      last_blend_dst_rgb = blend_dst_rgb (gl s),
      last_blend_src_alpha = blend_src_alpha (gl s),
      last_blend_dst_alpha = blend_dst_alpha (gl s),
      last_blend_equation_rgb = blend_equation_rgb (gl s),
      last_blend_equation_alpha = blend_equation_alpha (gl s),
      last_viewport = viewport (gl s),
      last_scissor_box = scissor_box (gl s),
      last_enable_blend = enable_blend (gl s),
      last_enable_cull_face = enable_cull_face (gl s),
      last_enable_depth_test = enable_depth_test (gl s),
      last_enable_scissor_test = enable_scissor_test (gl s)\<rparr>"
  by (simp add: backup_gl_state_def Let_def)

lemma setup_render_state_fields:
  "trace (setup_render_state w h s) = trace s @
     [GlEnable GL_BLEND, GlBlendEquation GL_FUNC_ADD,
      GlBlendFuncSeparate GL_SRC_ALPHA GL_ONE_MINUS_SRC_ALPHA GL_ONE GL_ONE_MINUS_SRC_ALPHA,
      GlDisable GL_CULL_FACE, GlDisable GL_DEPTH_TEST, GlEnable GL_SCISSOR_TEST,
      GlViewport 0 0 w h, GlClearColor, GlClear]"
  "g_EglDisplay (setup_render_state w h s) = g_EglDisplay s"
  "g_EglSurface (setup_render_state w h s) = g_EglSurface s"
  "g_ShaderHandle (setup_render_state w h s) = g_ShaderHandle s"
  "g_AttribLocationTex (setup_render_state w h s) = g_AttribLocationTex s"
  "g_AttribLocationProjMtx (setup_render_state w h s) = g_AttribLocationProjMtx s"
  by (simp_all add: setup_render_state_def Let_def cong: let_weak_cong)

lemma setup_program_fields:
  "trace (setup_program ds s) = trace s @
     [GlUseProgram (g_ShaderHandle s), GlUniform1i (g_AttribLocationTex s) 0,
      GlUniformMatrix4fv (g_AttribLocationProjMtx s) (ortho_projection ds)]"
  "g_EglDisplay (setup_program ds s) = g_EglDisplay s"
  "g_EglSurface (setup_program ds s) = g_EglSurface s"
  by (simp_all add: setup_program_def Let_def cong: let_weak_cong)

lemma restore_gl_state_fields:
  "trace (restore_gl_state b s) = trace s @
     [GlUseProgram (last_program b), GlBindTexture (last_texture b),
      GlBindBuffer GL_ARRAY_BUFFER (last_array_buffer b),
      GlBindBuffer GL_ELEMENT_ARRAY_BUFFER (last_element_array_buffer b),
      GlBlendEquationSeparate (last_blend_equation_rgb b) (last_blend_equation_alpha b),
      GlBlendFuncSeparate (last_blend_src_rgb b) (last_blend_dst_rgb b)
        (last_blend_src_alpha b) (last_blend_dst_alpha b),
      (if last_enable_blend b then GlEnable GL_BLEND else GlDisable GL_BLEND),
      (if last_enable_cull_face b then GlEnable GL_CULL_FACE else GlDisable GL_CULL_FACE),
      (if last_enable_depth_test b then GlEnable GL_DEPTH_TEST else GlDisable GL_DEPTH_TEST),
      (if last_enable_scissor_test b then GlEnable GL_SCISSOR_TEST else GlDisable GL_SCISSOR_TEST),
      (case last_viewport b of (x, y, w, h) \<Rightarrow> GlViewport x y w h),
      (case last_scissor_box b of (x, y, w, h) \<Rightarrow> GlScissor x y w h)]"
  "g_EglDisplay (restore_gl_state b s) = g_EglDisplay s"
  "g_EglSurface (restore_gl_state b s) = g_EglSurface s"
  by (simp_all add: restore_gl_state_def Let_def split: prod.splits cong: let_weak_cong)

lemma Render_passing:
  assumes "g_Initialized s" "egl_make_current_ok e"
    and "0 < c_int (fst (DrawDisplaySize dd))" "0 < c_int (snd (DrawDisplaySize dd))"
  shows "ImGui_ImplAndroid_RenderDrawData e (Some dd) s =
     (let s1 = issue (EglMakeCurrent (g_EglDisplay s) (g_EglSurface s) (g_EglSurface s) (g_EglContext s)) s;
          s2 = issue (GlActiveTexture GL_TEXTURE0) s1;
          s3 = setup_render_state (c_int (fst (DrawDisplaySize dd))) (c_int (snd (DrawDisplaySize dd))) s2;
          s4 = setup_program (DrawDisplaySize dd) s3;
          s5 = render_lists (c_int (snd (DrawDisplaySize dd))) (CmdLists dd) s4;
          s6 = restore_gl_state (fst (backup_gl_state s1)) s5
      in issue (EglSwapBuffers (g_EglDisplay s6) (g_EglSurface s6)) s6)"
  using assms
  by (simp add: ImGui_ImplAndroid_RenderDrawData_def Let_def snd_backup_gl_state split_beta
      cong: let_weak_cong)

text \<open>
  C5 (as amended). If \<^verbatim>\<open>render\<close> is called while initialised, the context can be made
  current, and the draw data is non-null with positive framebuffer dimensions and no
  draw list, then no draw call is issued (the draw calls in the trace are those that were
  there before) and the last call issued is the buffer swap on the backend's display and
  surface.
\<close>

theorem Render_empty_presents:
  assumes "g_Initialized s" and "egl_make_current_ok e"
    and "0 < c_int (fst (DrawDisplaySize dd))" and "0 < c_int (snd (DrawDisplaySize dd))"
    and "CmdLists dd = []"
  shows "filter is_draw_call (trace (ImGui_ImplAndroid_RenderDrawData e (Some dd) s))
           = filter is_draw_call (trace s)
         \<and> length (trace s) < length (trace (ImGui_ImplAndroid_RenderDrawData e (Some dd) s))
         \<and> last (trace (ImGui_ImplAndroid_RenderDrawData e (Some dd) s))
             = EglSwapBuffers (g_EglDisplay s) (g_EglSurface s)"
  by (simp add: Render_passing [OF assms(1-4)] assms(5) Let_def restore_gl_state_fields
      setup_program_fields setup_render_state_fields split: prod.splits)

text \<open>The theorem on the empty 1080 by 1920 frame after \<^verbatim>\<open>init\<close>.\<close>

theorem Render_empty_presents_witness:
  "filter is_draw_call (trace (ImGui_ImplAndroid_RenderDrawData good_env (Some empty_frame) ready_state)) = []
   \<and> last (trace (ImGui_ImplAndroid_RenderDrawData good_env (Some empty_frame) ready_state))
       = EglSwapBuffers 1 2"
proof -
  have a: "g_Initialized ready_state" by (rule ready_fields(1))
  have b: "egl_make_current_ok good_env" by (simp add: good_env_def)
  have c: "0 < c_int (fst (DrawDisplaySize empty_frame))" "0 < c_int (snd (DrawDisplaySize empty_frame))"
    by (simp_all add: empty_frame_def c_int_def)
  have d: "CmdLists empty_frame = []" by (simp add: empty_frame_def)
  show ?thesis
    using Render_empty_presents [OF a b c d]
    by (simp add: ready_fields ready_trace)
qed

text \<open>
  The claim as stated fails: when the context cannot be made current, \<^verbatim>\<open>render\<close>
  returns after that one call and the surface is not presented.
\<close>

theorem Render_empty_counterexample:
  "g_Initialized ready_state
   \<and> 0 < c_int (fst (DrawDisplaySize empty_frame)) \<and> 0 < c_int (snd (DrawDisplaySize empty_frame))
   \<and> CmdLists empty_frame = []
   \<and> trace (ImGui_ImplAndroid_RenderDrawData (good_env\<lparr>egl_make_current_ok := False\<rparr>)
              (Some empty_frame) ready_state)
       = trace ready_state @ [EglMakeCurrent 1 2 2 3]
   \<and> EglSwapBuffers 1 2 \<notin> set (trace (ImGui_ImplAndroid_RenderDrawData
              (good_env\<lparr>egl_make_current_ok := False\<rparr>) (Some empty_frame) ready_state))"
  by (simp add: ImGui_ImplAndroid_RenderDrawData_def ready_fields ready_trace empty_frame_def
      c_int_def)

section \<open>The ambient GPU state across a frame\<close>

lemma gl_apply_enable_if:
  "gl_apply (if b then GlEnable c else GlDisable c) g = set_cap c b g"
  by simp

lemma gl_restore_gl_state:
  "gl (restore_gl_state b s) =
     (gl s)\<lparr>current_program := last_program b,
             texture_binding_2d := (texture_binding_2d (gl s))(active_texture (gl s) := last_texture b),
             array_buffer_binding := last_array_buffer b,
             element_array_buffer_binding := last_element_array_buffer b,
             blend_equation_rgb := last_blend_equation_rgb b,
             blend_equation_alpha := last_blend_equation_alpha b,
             blend_src_rgb := last_blend_src_rgb b,
             blend_dst_rgb := last_blend_dst_rgb b,
             blend_src_alpha := last_blend_src_alpha b,
             blend_dst_alpha := last_blend_dst_alpha b,
             enable_blend := last_enable_blend b,
             enable_cull_face := last_enable_cull_face b,
             enable_depth_test := last_enable_depth_test b,
             enable_scissor_test := last_enable_scissor_test b,
             viewport := last_viewport b,
             scissor_box := last_scissor_box b\<rparr>"
  by (simp add: restore_gl_state_def Let_def gl_apply_enable_if set_cap_def
      split: prod.splits cong: let_weak_cong)

lemma fun_upd_same_rest: "f(a := x) = g(a := x) \<Longrightarrow> f(a := y) = g(a := y)"
  by (metis fun_upd_upd)

lemma restore_after_loop:
  assumes "ambient_rest (gl s) = ambient_rest (gl s')"
  shows "gl (restore_gl_state b s) = gl (restore_gl_state b s')"
  using assms unfolding gl_restore_gl_state ambient_rest_def
  by (cases "gl s"; cases "gl s'") (auto intro: fun_upd_same_rest)

lemma render_cmd_rest:
  "UserCallback c = None \<Longrightarrow> ambient_rest (gl (render_cmd fbh off c s)) = ambient_rest (gl s)"
  by (simp add: render_cmd_def ambient_rest_def Let_def split: prod.splits)

lemma render_cmds_rest:
  "\<forall>c \<in> set cs. UserCallback c = None \<Longrightarrow>
     ambient_rest (gl (render_cmds fbh off cs s)) = ambient_rest (gl s)"
  by (induction cs arbitrary: off s) (simp_all add: render_cmd_rest)

lemma render_list_rest:
  assumes "\<forall>c \<in> set (CmdBuffer l). UserCallback c = None"
  shows "ambient_rest (gl (render_list fbh l s)) = ambient_rest (gl s)"
  by (simp only: render_list_def Let_def render_cmds_rest [OF assms])
    (simp add: ambient_rest_def)

lemma render_lists_rest:
  "\<forall>l \<in> set ls. \<forall>c \<in> set (CmdBuffer l). UserCallback c = None \<Longrightarrow>
     ambient_rest (gl (render_lists fbh ls s)) = ambient_rest (gl s)"
  by (induction ls arbitrary: s) (simp_all add: render_list_rest)

lemma gl_setup:
  "gl (setup_program ds (setup_render_state w h s)) =
     (gl s)\<lparr>enable_blend := True, blend_equation_rgb := GL_FUNC_ADD, blend_equation_alpha := GL_FUNC_ADD,
             blend_src_rgb := GL_SRC_ALPHA, blend_dst_rgb := GL_ONE_MINUS_SRC_ALPHA,
             blend_src_alpha := GL_ONE, blend_dst_alpha := GL_ONE_MINUS_SRC_ALPHA,
             enable_cull_face := False, enable_depth_test := False, enable_scissor_test := True,
             viewport := (0, 0, w, h), current_program := g_ShaderHandle s\<rparr>"
  by (simp add: setup_program_def setup_render_state_def Let_def set_cap_def
      setup_render_state_fields cong: let_weak_cong)

text \<open>
  What a frame does to the ambient state when no command carries a user callback: every
  field is as before the call, except that texture unit 0 is left active.
\<close>

lemma Render_ambient_state:
  assumes "g_Initialized s" "egl_make_current_ok e"
    and "0 < c_int (fst (DrawDisplaySize dd))" "0 < c_int (snd (DrawDisplaySize dd))"
    and "\<forall>l \<in> set (CmdLists dd). \<forall>c \<in> set (CmdBuffer l). UserCallback c = None"
  shows "gl (ImGui_ImplAndroid_RenderDrawData e (Some dd) s) = (gl s)\<lparr>active_texture := GL_TEXTURE0\<rparr>"
proof -
  let ?s1 = "issue (EglMakeCurrent (g_EglDisplay s) (g_EglSurface s) (g_EglSurface s) (g_EglContext s)) s"
  let ?b = "fst (backup_gl_state ?s1)"
  let ?s4 = "setup_program (DrawDisplaySize dd)
      (setup_render_state (c_int (fst (DrawDisplaySize dd))) (c_int (snd (DrawDisplaySize dd)))
         (issue (GlActiveTexture GL_TEXTURE0) ?s1))"
  let ?s5 = "render_lists (c_int (snd (DrawDisplaySize dd))) (CmdLists dd) ?s4"
  have "gl (ImGui_ImplAndroid_RenderDrawData e (Some dd) s) = gl (restore_gl_state ?b ?s5)"
    by (simp add: Render_passing [OF assms(1-4)] Let_def)
  also have "\<dots> = gl (restore_gl_state ?b ?s4)"
    by (rule restore_after_loop) (rule render_lists_rest [OF assms(5)])
  also have "\<dots> = (gl s)\<lparr>active_texture := GL_TEXTURE0\<rparr>"
    by (cases "gl s") (simp add: gl_restore_gl_state gl_setup fst_backup_gl_state)
  finally show ?thesis .
qed

lemma shared_context_fields:
  "g_Initialized shared_context_state"
  "active_texture (gl shared_context_state) = GL_TEXTURE0 + 1"
  by (simp_all add: shared_context_state_def ready_fields)

text \<open>
  C1, at the input where the code departs from the claim. The backend is initialised on
  a context that another renderer has left with texture unit 1 active, and renders the
  empty 1080 by 1920 frame. After the call unit 0 is active: the snapshot's
  \<open>last_active_texture\<close> was taken and never put back. Every other field of the
  ambient state is as before the call.
\<close>

theorem Render_active_texture_not_restored:
  "active_texture (gl shared_context_state) = GL_TEXTURE0 + 1
   \<and> active_texture (gl (ImGui_ImplAndroid_RenderDrawData good_env (Some empty_frame) shared_context_state))
       = GL_TEXTURE0
   \<and> gl (ImGui_ImplAndroid_RenderDrawData good_env (Some empty_frame) shared_context_state)
       = (gl shared_context_state)\<lparr>active_texture := GL_TEXTURE0\<rparr>"
proof -
  have b: "egl_make_current_ok good_env" by (simp add: good_env_def)
  have c: "0 < c_int (fst (DrawDisplaySize empty_frame))" "0 < c_int (snd (DrawDisplaySize empty_frame))"
    by (simp_all add: empty_frame_def c_int_def)
  have d: "\<forall>l \<in> set (CmdLists empty_frame). \<forall>c \<in> set (CmdBuffer l). UserCallback c = None"
    by (simp add: empty_frame_def)
  show ?thesis
    by (simp add: Render_ambient_state [OF shared_context_fields(1) b c d] shared_context_fields)
qed

section \<open>Scissor rectangles\<close>

lemma scissor_rect_max:
  "scissor_rect fbh cr =
     (case scissor_raw fbh cr of (rx, ry, rw, rh) \<Rightarrow> (max 0 rx, max 0 ry, max 0 rw, max 0 rh))"
  by (auto simp add: scissor_rect_def max_def split: prod.splits)

lemma render_cmd_trace:
  "trace (render_cmd fbh off c s) =
     trace s @
       (case UserCallback c of
          Some f \<Rightarrow> [InvokeUserCallback]
        | None \<Rightarrow>
            [case scissor_raw fbh (ClipRect c) of (rx, ry, rw, rh) \<Rightarrow>
               GlScissor (max 0 rx) (max 0 ry) (max 0 rw) (max 0 rh),
             GlBindTexture (TextureId c),
             GlDrawElements (ElemCount c) (off * sizeof_ImDrawIdx)])"
  by (simp add: render_cmd_def scissor_rect_max Let_def split: option.splits prod.splits)

lemma clamped_call_kind [simp]:
  "is_scissor_call (case raw of (rx, ry, rw, rh) \<Rightarrow>
     GlScissor (max 0 rx) (max 0 ry) (max 0 rw) (max 0 rh))"
  "\<not> is_draw_call (case raw of (rx, ry, rw, rh) \<Rightarrow>
     GlScissor (max 0 rx) (max 0 ry) (max 0 rw) (max 0 rh))"
  by (simp_all split: prod.splits)

lemma render_cmd_scissors:
  "filter is_scissor_call (trace (render_cmd fbh off c s)) =
     filter is_scissor_call (trace s) @
       map (\<lambda>c. case scissor_raw fbh (ClipRect c) of (rx, ry, rw, rh) \<Rightarrow>
                   GlScissor (max 0 rx) (max 0 ry) (max 0 rw) (max 0 rh))
         (filter (\<lambda>c. UserCallback c = None) [c])"
  by (simp add: render_cmd_trace split: option.splits prod.splits)

lemma render_cmds_scissors:
  "filter is_scissor_call (trace (render_cmds fbh off cs s)) =
     filter is_scissor_call (trace s) @
       map (\<lambda>c. case scissor_raw fbh (ClipRect c) of (rx, ry, rw, rh) \<Rightarrow>
                   GlScissor (max 0 rx) (max 0 ry) (max 0 rw) (max 0 rh))
         (filter (\<lambda>c. UserCallback c = None) cs)"
proof (induction cs arbitrary: off s)
  case Nil
  show ?case by simp
next
  case (Cons c cs)
  show ?case
    using render_cmd_scissors [of fbh off c s]
    by (simp add: Cons.IH)
qed

lemma render_list_scissors:
  "filter is_scissor_call (trace (render_list fbh l s)) =
     filter is_scissor_call (trace s) @
       map (\<lambda>c. case scissor_raw fbh (ClipRect c) of (rx, ry, rw, rh) \<Rightarrow>
                   GlScissor (max 0 rx) (max 0 ry) (max 0 rw) (max 0 rh))
         (filter (\<lambda>c. UserCallback c = None) (CmdBuffer l))"
  by (simp add: render_list_def Let_def render_cmds_scissors cong: let_weak_cong)

lemma render_lists_scissors:
  "filter is_scissor_call (trace (render_lists fbh ls s)) =
     filter is_scissor_call (trace s) @
       map (\<lambda>c. case scissor_raw fbh (ClipRect c) of (rx, ry, rw, rh) \<Rightarrow>
                   GlScissor (max 0 rx) (max 0 ry) (max 0 rw) (max 0 rh))
         (filter (\<lambda>c. UserCallback c = None) (concat (map CmdBuffer ls)))"
  by (induction ls arbitrary: s) (simp_all add: render_list_scissors)

lemma render_cmds_draws:
  "length (filter is_draw_call (trace (render_cmds fbh off cs s))) =
     length (filter is_draw_call (trace s)) + length (filter (\<lambda>c. UserCallback c = None) cs)"
  by (induction cs arbitrary: off s) (simp_all add: render_cmd_trace split: option.splits)

lemma render_list_draws:
  "length (filter is_draw_call (trace (render_list fbh l s))) =
     length (filter is_draw_call (trace s))
       + length (filter (\<lambda>c. UserCallback c = None) (CmdBuffer l))"
  by (simp add: render_list_def Let_def render_cmds_draws cong: let_weak_cong)

lemma render_lists_draws:
  "length (filter is_draw_call (trace (render_lists fbh ls s))) =
     length (filter is_draw_call (trace s))
       + length (filter (\<lambda>c. UserCallback c = None) (concat (map CmdBuffer ls)))"
  by (induction ls arbitrary: s) (simp_all add: render_list_draws)

lemma Render_scissors:
  assumes "g_Initialized s" "egl_make_current_ok e"
    and "0 < c_int (fst (DrawDisplaySize dd))" "0 < c_int (snd (DrawDisplaySize dd))"
  shows "filter is_scissor_call (trace (ImGui_ImplAndroid_RenderDrawData e (Some dd) s)) =
     filter is_scissor_call (trace s) @
       map (\<lambda>c. case scissor_raw (c_int (snd (DrawDisplaySize dd))) (ClipRect c) of
                   (rx, ry, rw, rh) \<Rightarrow> GlScissor (max 0 rx) (max 0 ry) (max 0 rw) (max 0 rh))
         (filter (\<lambda>c. UserCallback c = None) (concat (map CmdBuffer (CmdLists dd))))
       @ [case scissor_box (gl s) of (x, y, w, h) \<Rightarrow> GlScissor x y w h]"
  by (simp add: Render_passing [OF assms] Let_def restore_gl_state_fields render_lists_scissors
      setup_program_fields setup_render_state_fields fst_backup_gl_state split: prod.splits)

lemma scissor_nonneg_max:
  "scissor_nonneg (case raw of (rx, ry, rw, rh) \<Rightarrow>
     GlScissor (max 0 rx) (max 0 ry) (max 0 rw) (max 0 rh))"
  by (simp split: prod.splits)

lemma render_lists_scissor_nonneg:
  assumes "list_all scissor_nonneg (filter is_scissor_call (trace s))"
  shows "list_all scissor_nonneg (filter is_scissor_call (trace (render_lists fbh ls s)))"
  using assms
  by (auto simp add: render_lists_scissors list_all_iff scissor_nonneg_max)

text \<open>
  C6. For a draw command without callback the renderer issues the scissor call, the
  texture binding and the draw call, in this order, and each of the four scissor
  arguments is the computed value if that is not negative and 0 otherwise; so a clip
  rectangle whose computed width or height is negative or zero gets a scissor rectangle
  of zero area, and the call is issued all the same. The draw loop as a whole issues
  exactly these scissor calls, one for each command without callback, in the order of the
  draw lists and of the commands in them, and as many draw calls as scissor calls. For a
  call of \<^verbatim>\<open>render\<close> that gets past its early returns, the scissor calls issued are
  these, computed with the framebuffer height, followed by the one call that restores the
  scissor box found at entry. None of the per-command scissor calls has a negative
  argument.
\<close>

theorem scissor_clamped:
  "(UserCallback pcmd = None \<longrightarrow>
      (case scissor_raw fb_height (ClipRect pcmd) of (rx, ry, rw, rh) \<Rightarrow>
         trace (render_cmd fb_height idx_offset pcmd s)
           = trace s @ [GlScissor (max 0 rx) (max 0 ry) (max 0 rw) (max 0 rh),
                        GlBindTexture (TextureId pcmd),
                        GlDrawElements (ElemCount pcmd) (idx_offset * sizeof_ImDrawIdx)]
         \<and> (rw \<le> 0 \<or> rh \<le> 0 \<longrightarrow> max 0 rw * max 0 rh = 0)))
   \<and> filter is_scissor_call (trace (render_lists fb_height cmd_lists s))
       = filter is_scissor_call (trace s) @
           map (\<lambda>c. case scissor_raw fb_height (ClipRect c) of (rx, ry, rw, rh) \<Rightarrow>
                       GlScissor (max 0 rx) (max 0 ry) (max 0 rw) (max 0 rh))
             (filter (\<lambda>c. UserCallback c = None) (concat (map CmdBuffer cmd_lists)))
   \<and> length (filter is_draw_call (trace (render_lists fb_height cmd_lists s)))
       = length (filter is_draw_call (trace s))
           + length (filter (\<lambda>c. UserCallback c = None) (concat (map CmdBuffer cmd_lists)))
   \<and> (g_Initialized s \<and> egl_make_current_ok e
        \<and> 0 < c_int (fst (DrawDisplaySize dd)) \<and> 0 < c_int (snd (DrawDisplaySize dd)) \<longrightarrow>
        filter is_scissor_call (trace (ImGui_ImplAndroid_RenderDrawData e (Some dd) s))
          = filter is_scissor_call (trace s) @
              map (\<lambda>c. case scissor_raw (c_int (snd (DrawDisplaySize dd))) (ClipRect c) of
                          (rx, ry, rw, rh) \<Rightarrow> GlScissor (max 0 rx) (max 0 ry) (max 0 rw) (max 0 rh))
                (filter (\<lambda>c. UserCallback c = None) (concat (map CmdBuffer (CmdLists dd))))
              @ [case scissor_box (gl s) of (x, y, w, h) \<Rightarrow> GlScissor x y w h])
   \<and> (list_all scissor_nonneg (filter is_scissor_call (trace s))
        \<longrightarrow> list_all scissor_nonneg
              (filter is_scissor_call (trace (render_lists fb_height cmd_lists s))))"
proof -
  have one: "UserCallback pcmd = None \<longrightarrow>
      (case scissor_raw fb_height (ClipRect pcmd) of (rx, ry, rw, rh) \<Rightarrow>
         trace (render_cmd fb_height idx_offset pcmd s)
           = trace s @ [GlScissor (max 0 rx) (max 0 ry) (max 0 rw) (max 0 rh),
                        GlBindTexture (TextureId pcmd),
                        GlDrawElements (ElemCount pcmd) (idx_offset * sizeof_ImDrawIdx)]
         \<and> (rw \<le> 0 \<or> rh \<le> 0 \<longrightarrow> max 0 rw * max 0 rh = 0))"
    by (auto simp add: render_cmd_trace split: prod.splits)
  show ?thesis
    using one Render_scissors [of s e dd] render_lists_scissor_nonneg [of s fb_height cmd_lists]
    by (simp only: render_lists_scissors render_lists_draws simp_thms) blast
qed

text \<open>
  The theorem on an inverted clip rectangle and on one that starts off screen, each
  alone and both in one frame of height 1920 rendered after \<^verbatim>\<open>init\<close>: the frame's
  scissor calls are the two clamped ones and the restoring one.
\<close>

theorem scissor_clamped_witness:
  "trace (render_cmd 1920 0 inverted_clip_cmd ready_state)
     = trace ready_state @ [GlScissor 100 1720 0 0, GlBindTexture 1, GlDrawElements 6 0]
   \<and> trace (render_cmd 1920 6 offscreen_clip_cmd ready_state)
     = trace ready_state @ [GlScissor 0 0 40 2020, GlBindTexture 1, GlDrawElements 6 12]
   \<and> filter is_scissor_call (trace (ImGui_ImplAndroid_RenderDrawData good_env (Some clip_frame) ready_state))
     = [GlScissor 100 1720 0 0, GlScissor 0 0 40 2020, GlScissor 0 0 1080 1920]
   \<and> length (filter is_draw_call (trace (render_lists 1920 (CmdLists clip_frame) ready_state))) = 2
   \<and> list_all scissor_nonneg
       (filter is_scissor_call (trace (render_lists 1920 (CmdLists clip_frame) ready_state)))"
proof -
  have a: "UserCallback inverted_clip_cmd = None" "UserCallback offscreen_clip_cmd = None"
    by (simp_all add: inverted_clip_cmd_def offscreen_clip_cmd_def)
  have b: "scissor_raw 1920 (ClipRect inverted_clip_cmd) = (100, 1720, - 50, - 100)"
    "scissor_raw 1920 (ClipRect offscreen_clip_cmd) = (- 10, - 80, 40, 2020)"
    by (simp_all add: inverted_clip_cmd_def offscreen_clip_cmd_def scissor_raw_def c_int_def)
  have c: "filter is_scissor_call (trace ready_state) = []"
    "filter is_draw_call (trace ready_state) = []"
    by (simp_all add: ready_trace)
  have d: "TextureId inverted_clip_cmd = 1" "ElemCount inverted_clip_cmd = 6"
    "TextureId offscreen_clip_cmd = 1" "ElemCount offscreen_clip_cmd = 6"
    by (simp_all add: inverted_clip_cmd_def offscreen_clip_cmd_def)
  have f: "CmdLists clip_frame = [\<lparr>VtxBuffer_Size = 8, IdxBuffer_Size = 12,
             CmdBuffer = [inverted_clip_cmd, offscreen_clip_cmd]\<rparr>]"
    "c_int (fst (DrawDisplaySize clip_frame)) = 1080" "c_int (snd (DrawDisplaySize clip_frame)) = 1920"
    by (simp_all add: clip_frame_def c_int_def)
  have g: "g_Initialized ready_state \<and> egl_make_current_ok good_env"
    by (simp add: ready_fields good_env_def)
  have h: "scissor_box (gl ready_state) = (0, 0, 1080, 1920)"
    by (simp add: ready_state_def init_defs good_env_def initial_state_def initial_gl_def step_defs
        cong: let_weak_cong)
  show ?thesis
    using scissor_clamped [of inverted_clip_cmd 1920 0 ready_state "CmdLists clip_frame"
            good_env clip_frame]
      scissor_clamped [of offscreen_clip_cmd 1920 6 ready_state "[]" good_env clip_frame]
    by (simp add: a b c d f g h sizeof_ImDrawIdx_def)
qed

end
